theory Spec2Isabelle
  imports Complex_Main
begin

section \<open>Python strings and lists\<close>

text \<open>
  A string is a list of characters, each a code point below 256. \<open>str.lower\<close> maps the
  letters A to Z and the capital letters of the range 192 to 222 (all but the
  multiplication sign, 215) to the letter 32 places further on, and keeps every other
  character. \<open>sub in s\<close> is substring containment. \<open>str.split()\<close> and \<open>str.strip()\<close>
  cut at the characters for which \<open>str.isspace\<close> holds: tab, line feed, vertical tab,
  form feed, carriage return, the separators 28 to 31, the space, the next-line control
  133 and the no-break space 160.
\<close>

definition lower_char :: "char \<Rightarrow> char" where
  "lower_char c =
     (let n = (of_char c :: nat)
      in if (65 \<le> n \<and> n \<le> 90) \<or> (192 \<le> n \<and> n \<le> 222 \<and> n \<noteq> 215)
         then char_of (n + 32) else c)"

definition py_lower :: "string \<Rightarrow> string" where
  "py_lower s = map lower_char s"

fun startswith :: "string \<Rightarrow> string \<Rightarrow> bool" where
  "startswith s [] = True"
| "startswith [] (p # ps) = False"
| "startswith (c # cs) (p # ps) = (c = p \<and> startswith cs ps)"

text \<open>\<open>str_in sub s\<close> is Python's \<open>sub in s\<close>.\<close>

fun str_in :: "string \<Rightarrow> string \<Rightarrow> bool" where
  "str_in sub [] = (sub = [])"
| "str_in sub (c # cs) = (startswith (c # cs) sub \<or> str_in sub cs)"

text \<open>\<open>any_in kws s\<close> is \<open>any(k in s for k in kws)\<close>.\<close>

fun any_in :: "string list \<Rightarrow> string \<Rightarrow> bool" where
  "any_in [] s = False"
| "any_in (k # ks) s = (str_in k s \<or> any_in ks s)"

definition is_space :: "char \<Rightarrow> bool" where
  "is_space c =
     (let n = (of_char c :: nat)
      in (9 \<le> n \<and> n \<le> 13) \<or> (28 \<le> n \<and> n \<le> 32) \<or> n = 133 \<or> n = 160)"

fun split_acc :: "string \<Rightarrow> string \<Rightarrow> string list" where
  "split_acc cur [] = (if cur = [] then [] else [cur])"
| "split_acc cur (c # cs) =
     (if is_space c then (if cur = [] then split_acc [] cs else cur # split_acc [] cs)
      else split_acc (cur @ [c]) cs)"

definition py_split :: "string \<Rightarrow> string list" where
  "py_split s = split_acc [] s"

definition py_strip :: "string \<Rightarrow> string" where
  "py_strip s = rev (dropWhile is_space (rev (dropWhile is_space s)))"

fun py_join :: "string \<Rightarrow> string list \<Rightarrow> string" where
  "py_join sep [] = []"
| "py_join sep [x] = x"
| "py_join sep (x # y # ys) = x @ sep @ py_join sep (y # ys)"

text \<open>\<open>py_take n xs\<close> is the slice \<open>xs[:n]\<close>; a negative \<open>n\<close> counts from the end.\<close>

definition py_take :: "int \<Rightarrow> 'a list \<Rightarrow> 'a list" where
  "py_take n xs = (if 0 \<le> n then take (nat n) xs else take (length xs - nat (- n)) xs)"

definition digit_char :: "nat \<Rightarrow> char" where
  "digit_char d = char_of (48 + d)"

function str_nat :: "nat \<Rightarrow> string" where
  "str_nat n = (if n < 10 then [digit_char n] else str_nat (n div 10) @ [digit_char (n mod 10)])"
  by pat_completeness auto
termination
  by (relation "measure id") auto

declare str_nat.simps [simp del]

text \<open>\<open>str(b)\<close> for a bool, as an f-string prints it.\<close>

definition str_bool :: "bool \<Rightarrow> string" where
  "str_bool b = (if b then ''True'' else ''False'')"

section \<open>Data model\<close>

text \<open>
  A raised Python exception is a value carrying \<open>str(e)\<close>. A retrieved document is the
  dict the tools build; \<open>dtype\<close> is its \<open>"type"\<close> key, and the keys that only some
  producers set are optional. A relationship is the pair of its relation and its target.
\<close>

datatype exn = Exception string

fun str_exn :: "exn \<Rightarrow> string" where
  "str_exn (Exception m) = m"

record document =
  dtype :: string
  title :: string
  content :: string
  reference :: string
  confidence :: real
  category :: "string option"
  published_date :: "string option"
  source :: "string option"
  relationships :: "(string \<times> string) list option"

text \<open>
  The \<open>options\<close> dict: each key may be absent, and \<open>options.get(key, default)\<close> supplies
  the default at the place of use.
\<close>

record agent_options =
  use_graph :: "bool option"
  use_internet :: "bool option"
  max_results :: "int option"

definition opt_get :: "'a option \<Rightarrow> 'a \<Rightarrow> 'a" where
  "opt_get v d = (case v of None \<Rightarrow> d | Some x \<Rightarrow> x)"

text \<open>
  \<open>AgentState\<close> (state.py). The types of \<open>sources\<close> and \<open>structured_output\<close> are those of
  the formatters module, which the nodes only pass through. The fields \<open>context\<close>,
  \<open>user_id\<close>, \<open>messages\<close>, \<open>current_step\<close>, \<open>tool_calls\<close> and \<open>confidence\<close> are read
  and written by no node and are left out.
\<close>

record ('s, 'o) AgentState =
  query :: string
  options :: agent_options
  steps_completed :: "string list"
  next_step :: "string option"
  graph_results :: "document list"
  internet_results :: "document list"
  semantic_results :: "document list"
  all_contexts :: "document list"
  reasoning :: "string list"
  iterations :: int
  final_answer :: string
  sources :: "'s"
  structured_output :: "'o"
  should_continue_flag :: bool
  max_iterations_reached :: bool
  error :: "string option"
  last_error :: "string option"

section \<open>The workflow nodes (nodes.py)\<close>

definition needs_graph_search :: "string \<Rightarrow> bool" where
  "needs_graph_search q =
     any_in [''what is'', ''define'', ''explain'', ''concept'', ''theory'',
             ''relationship'', ''how does'', ''compare'', ''difference between''] q"

definition needs_internet_search :: "string \<Rightarrow> bool" where
  "needs_internet_search q =
     any_in [''latest'', ''recent'', ''news'', ''update'', ''current'', ''2024'', ''2025'',
             ''today'', ''yesterday'', ''this week'', ''this month'', ''trending''] q"

text \<open>The list \<open>next_steps\<close> that \<open>route_query\<close> builds.\<close>

definition route_steps :: "agent_options \<Rightarrow> string \<Rightarrow> string list" where
  "route_steps opts q =
     (let query_lower = py_lower q;
          s0 = [''analyze_query''];
          s1 = (if opt_get (use_graph opts) True \<and> needs_graph_search query_lower
                then s0 @ [''search_graph''] else s0);
          s2 = (if opt_get (use_internet opts) True \<and> needs_internet_search query_lower
                then s1 @ [''search_internet''] else s1)
      in s2 @ [''generate_answer''])"

definition route_query :: "('s, 'o) AgentState \<Rightarrow> ('s, 'o) AgentState" where
  "route_query state =
     (let next_steps = route_steps (options state) (query state)
      in state\<lparr>next_step := Some (case next_steps of [] \<Rightarrow> ''generate_answer'' | x # _ \<Rightarrow> x),
               steps_completed := steps_completed state @ [''route_query''],
               reasoning := reasoning state @
                 [''Query routed to steps: '' @ py_join '', '' next_steps]\<rparr>)"

text \<open>
  The analysis dict of \<open>analyze_query\<close> and its \<open>repr\<close>, which the f-string writes into
  the reasoning trace.
\<close>

record analysis =
  intent :: string
  complexity :: string
  needs_facts :: bool
  needs_current_info :: bool
  expected_sources :: "string list"

definition repr_str :: "string \<Rightarrow> string" where
  "repr_str s = CHR 0x27 # s @ [CHR 0x27]"

definition repr_list :: "string list \<Rightarrow> string" where
  "repr_list xs = ''['' @ py_join '', '' (map repr_str xs) @ '']''"

definition repr_analysis :: "analysis \<Rightarrow> string" where
  "repr_analysis a =
     ''{'' @ repr_str ''intent'' @ '': '' @ repr_str (intent a) @ '', '' @
     repr_str ''complexity'' @ '': '' @ repr_str (complexity a) @ '', '' @
     repr_str ''needs_facts'' @ '': '' @ str_bool (needs_facts a) @ '', '' @
     repr_str ''needs_current_info'' @ '': '' @ str_bool (needs_current_info a) @ '', '' @
     repr_str ''expected_sources'' @ '': '' @ repr_list (expected_sources a) @ ''}''"

definition analyse :: "string \<Rightarrow> analysis" where
  "analyse q =
     (let a0 = \<lparr>intent = ''information_request'', complexity = ''medium'',
                 needs_facts = True, needs_current_info = False,
                 expected_sources = [''graph'']\<rparr>;
          query_lower = py_lower q;
          a1 = (if any_in [''what is'', ''define'', ''explain''] query_lower
                then a0\<lparr>intent := ''definition'', needs_facts := True\<rparr>
                else if any_in [''how to'', ''steps'', ''guide''] query_lower
                then a0\<lparr>intent := ''instructions''\<rparr>
                else if any_in [''compare'', ''difference'', ''vs''] query_lower
                then a0\<lparr>intent := ''comparison''\<rparr>
                else a0);
          a2 = (if length (py_split q) > 10
                   \<or> any_in [''complex'', ''advanced'', ''detailed''] query_lower
                then a1\<lparr>complexity := ''high''\<rparr>
                else if length (py_split q) < 5 then a1\<lparr>complexity := ''low''\<rparr>
                else a1)
      in if any_in [''latest'', ''recent'', ''news'', ''update''] query_lower
         then a2\<lparr>needs_current_info := True,
                 expected_sources := expected_sources a2 @ [''internet'']\<rparr>
         else a2)"

definition analyze_query :: "('s, 'o) AgentState \<Rightarrow> ('s, 'o) AgentState" where
  "analyze_query state =
     state\<lparr>reasoning := reasoning state @
              [''Query analysis: '' @ repr_analysis (analyse (query state))],
           steps_completed := steps_completed state @ [''analyze_query''],
           next_step := Some (if opt_get (use_graph (options state)) True
                              then ''search_graph'' else ''search_internet'')\<rparr>"

text \<open>
  The two search nodes call the tools \<open>search_knowledge_graph\<close>,
  \<open>internet_tool.search_internet\<close> and \<open>internet_tool.semantic_search\<close>. A node sees of
  a tool only what the call returns or raises, so the tools are arguments of the node:
  functions from the query and the result limit to either the raised exception (\<open>Inl\<close>)
  or the returned documents (\<open>Inr\<close>). The \<open>try\<close> block of a node is the \<open>case\<close> on
  that outcome; what the block had already written to the state when the exception came
  stays written.
\<close>

type_synonym tool = "string \<Rightarrow> int \<Rightarrow> exn + document list"

definition search_graph :: "tool \<Rightarrow> ('s, 'o) AgentState \<Rightarrow> ('s, 'o) AgentState" where
  "search_graph graph_tool state =
     (if \<not> opt_get (use_graph (options state)) True
      then state\<lparr>steps_completed := steps_completed state @ [''search_graph''],
                 next_step := Some ''search_internet''\<rparr>
      else
        let max_r = opt_get (max_results (options state)) 5;
            state1 =
              (case graph_tool (query state) max_r of
                 Inr results \<Rightarrow>
                   state\<lparr>graph_results := results,
                         all_contexts := all_contexts state @ results,
                         reasoning := reasoning state @
                           [''Found '' @ str_nat (length results) @ '' graph results'']\<rparr>
               | Inl e \<Rightarrow>
                   state\<lparr>last_error := Some (''Graph search error: '' @ str_exn e)\<rparr>)
        in state1\<lparr>steps_completed := steps_completed state1 @ [''search_graph''],
                  next_step := Some (if opt_get (use_internet (options state1)) True
                                     then ''search_internet'' else ''generate_answer'')\<rparr>)"

definition search_internet ::
  "tool \<Rightarrow> tool \<Rightarrow> ('s, 'o) AgentState \<Rightarrow> ('s, 'o) AgentState" where
  "search_internet web_tool cache_tool state =
     (if \<not> opt_get (use_internet (options state)) True
      then state\<lparr>steps_completed := steps_completed state @ [''search_internet''],
                 next_step := Some ''generate_answer''\<rparr>
      else
        let max_r = opt_get (max_results (options state)) 5;
            state2 =
              (case web_tool (query state) max_r of
                 Inl e \<Rightarrow>
                   state\<lparr>last_error := Some (''Internet search error: '' @ str_exn e)\<rparr>
               | Inr internet_res \<Rightarrow>
                   let state1 = state\<lparr>internet_results := internet_res,
                                      all_contexts := all_contexts state @ internet_res\<rparr>
                   in (case cache_tool (query state) (max_r div 2) of
                         Inl e \<Rightarrow>
                           state1\<lparr>last_error :=
                             Some (''Internet search error: '' @ str_exn e)\<rparr>
                       | Inr semantic_res \<Rightarrow>
                           state1\<lparr>semantic_results := semantic_res,
                                  all_contexts := all_contexts state1 @ semantic_res,
                                  reasoning := reasoning state1 @
                                    [''Found '' @ str_nat (length internet_res) @
                                     '' internet results and '' @
                                     str_nat (length semantic_res) @
                                     '' semantic results'']\<rparr>))
        in state2\<lparr>steps_completed := steps_completed state2 @ [''search_internet''],
                  next_step := Some ''generate_answer''\<rparr>)"

text \<open>
  \<open>should_continue\<close> returns the decision and, because it writes
  \<open>max_iterations_reached\<close>, the state. A \<open>next_step\<close> is truthy when it is a non-empty
  string.
\<close>

definition truthy_step :: "string option \<Rightarrow> bool" where
  "truthy_step n = (case n of None \<Rightarrow> False | Some s \<Rightarrow> s \<noteq> [])"

definition should_continue :: "('s, 'o) AgentState \<Rightarrow> string \<times> ('s, 'o) AgentState" where
  "should_continue state =
     (let has_context = (length (all_contexts state) > 0);
          max_reached = (iterations state \<ge> 5)
      in if max_reached then (''finish'', state\<lparr>max_iterations_reached := True\<rparr>)
         else if next_step state = Some ''generate_answer'' \<and> has_context
         then (''generate_answer'', state)
         else if truthy_step (next_step state) \<and> next_step state \<noteq> Some ''generate_answer''
         then (''continue'', state)
         else (''finish'', state))"

text \<open>
  \<open>format_final_answer\<close> uses \<open>format_sources\<close> and \<open>create_structured_output\<close> of the
  formatters module, taken as arguments.
\<close>

definition format_final_answer ::
  "(document list \<Rightarrow> 's) \<Rightarrow> (string \<Rightarrow> 's \<Rightarrow> string list \<Rightarrow> 'o) \<Rightarrow>
   ('s, 'o) AgentState \<Rightarrow> ('s, 'o) AgentState" where
  "format_final_answer format_sources create_structured_output state =
     (let srcs = format_sources (all_contexts state);
          out = create_structured_output (final_answer state) srcs (reasoning state)
      in state\<lparr>sources := srcs, structured_output := out, should_continue_flag := False\<rparr>)"

text \<open>
  A run of the workflow is a sequence of transitions: the five node functions and the
  guard, in whatever order a driver calls them.
\<close>

datatype transition = Route | Analyze | SearchGraph | SearchInternet | Guard | Format

fun apply_transition ::
  "tool \<Rightarrow> tool \<Rightarrow> tool \<Rightarrow> (document list \<Rightarrow> 's) \<Rightarrow> (string \<Rightarrow> 's \<Rightarrow> string list \<Rightarrow> 'o) \<Rightarrow>
   transition \<Rightarrow> ('s, 'o) AgentState \<Rightarrow> ('s, 'o) AgentState" where
  "apply_transition gt wt ct fs cso Route s = route_query s"
| "apply_transition gt wt ct fs cso Analyze s = analyze_query s"
| "apply_transition gt wt ct fs cso SearchGraph s = search_graph gt s"
| "apply_transition gt wt ct fs cso SearchInternet s = search_internet wt ct s"
| "apply_transition gt wt ct fs cso Guard s = snd (should_continue s)"
| "apply_transition gt wt ct fs cso Format s = format_final_answer fs cso s"

fun run_transitions ::
  "tool \<Rightarrow> tool \<Rightarrow> tool \<Rightarrow> (document list \<Rightarrow> 's) \<Rightarrow> (string \<Rightarrow> 's \<Rightarrow> string list \<Rightarrow> 'o) \<Rightarrow>
   transition list \<Rightarrow> ('s, 'o) AgentState \<Rightarrow> ('s, 'o) AgentState" where
  "run_transitions gt wt ct fs cso [] s = s"
| "run_transitions gt wt ct fs cso (t # ts) s =
     run_transitions gt wt ct fs cso ts (apply_transition gt wt ct fs cso t s)"

section \<open>The graph retriever (graph_tool.py)\<close>

text \<open>The static table of \<open>_get_fallback_graph_data\<close>, in the order of the dict.\<close>

definition kb_ai :: document where
  "kb_ai = \<lparr>dtype = ''graph'', title = ''Artificial Intelligence'',
     content = ''Field of computer science focused on creating intelligent machines that can learn, reason, and solve problems. Includes subfields like machine learning, natural language processing, and computer vision.'',
     reference = ''graph:fallback:ai001'', confidence = 85 / 100,
     category = Some ''technology'', published_date = None, source = None,
     relationships = None\<rparr>"

definition kb_ml :: document where
  "kb_ml = \<lparr>dtype = ''graph'', title = ''Machine Learning'',
     content = ''Subset of AI that uses statistical techniques to enable computers to learn and improve from experience without explicit programming. Common approaches include supervised learning, unsupervised learning, and reinforcement learning.'',
     reference = ''graph:fallback:ml001'', confidence = 82 / 100,
     category = Some ''technology'', published_date = None, source = None,
     relationships = None\<rparr>"

definition kb_dl :: document where
  "kb_dl = \<lparr>dtype = ''graph'', title = ''Deep Learning'',
     content = ''Type of machine learning using neural networks with multiple layers to model complex patterns in large amounts of data. Particularly effective for image recognition, speech recognition, and natural language processing.'',
     reference = ''graph:fallback:dl001'', confidence = 80 / 100,
     category = Some ''technology'', published_date = None, source = None,
     relationships = None\<rparr>"

definition kb_nlp :: document where
  "kb_nlp = \<lparr>dtype = ''graph'', title = ''Natural Language Processing'',
     content = ''Branch of AI that helps computers understand, interpret, and manipulate human language. Applications include chatbots, translation, and sentiment analysis.'',
     reference = ''graph:fallback:nlp001'', confidence = 78 / 100,
     category = Some ''technology'', published_date = None, source = None,
     relationships = None\<rparr>"

definition kb_cv :: document where
  "kb_cv = \<lparr>dtype = ''graph'', title = ''Computer Vision'',
     content = ''Field of AI that enables computers to interpret and understand the visual world from digital images or videos. Used in facial recognition, autonomous vehicles, and medical imaging.'',
     reference = ''graph:fallback:cv001'', confidence = 77 / 100,
     category = Some ''technology'', published_date = None, source = None,
     relationships = None\<rparr>"

definition kb_nn :: document where
  "kb_nn = \<lparr>dtype = ''graph'', title = ''Neural Networks'',
     content = ''Computing systems inspired by biological neural networks. Consist of interconnected nodes (neurons) that process information and learn patterns.'',
     reference = ''graph:fallback:nn001'', confidence = 79 / 100,
     category = Some ''technology'', published_date = None, source = None,
     relationships = None\<rparr>"

definition fallback_knowledge_base :: "(string \<times> document) list" where
  "fallback_knowledge_base =
     [(''ai'', kb_ai), (''machine learning'', kb_ml), (''deep learning'', kb_dl),
      (''natural language processing'', kb_nlp), (''computer vision'', kb_cv),
      (''neural networks'', kb_nn)]"

text \<open>
  The loop \<open>for key, value in table.items(): if p(key): relevant_data.append(value)\<close>,
  with \<open>relevant_data\<close> as the accumulator.
\<close>

fun collect_items ::
  "(string \<Rightarrow> bool) \<Rightarrow> (string \<times> document) list \<Rightarrow> document list \<Rightarrow> document list" where
  "collect_items p [] relevant_data = relevant_data"
| "collect_items p ((key, v) # items) relevant_data =
     collect_items p items (if p key then relevant_data @ [v] else relevant_data)"

definition get_fallback_graph_data :: "string \<Rightarrow> int \<Rightarrow> document list" where
  "get_fallback_graph_data q max_r =
     (let query_lower = py_lower q;
          r1 = collect_items (\<lambda>key. str_in key query_lower) fallback_knowledge_base [];
          r2 = (if r1 = []
                then collect_items (\<lambda>key. any_in (py_split key) query_lower)
                       fallback_knowledge_base r1
                else r1);
          r3 = (if r2 = [] \<and> any_in [''ai'', ''artificial'', ''intelligence'', ''machine'',
                                       ''learning''] query_lower
                then [kb_ai, kb_ml, kb_dl] else r2)
      in if r3 \<noteq> [] then py_take max_r r3
         else py_take max_r (map snd fallback_knowledge_base))"

text \<open>
  A row of the graph backend; \<open>None\<close> is a key the row does not have. The backend is an
  argument of \<open>search_knowledge_graph\<close>: the flag \<open>neo4j.connected\<close> and the outcome of
  \<open>neo4j.execute_query\<close>.
\<close>

record graph_row =
  row_title :: string
  row_summary :: string
  row_category :: "string option"
  row_confidence :: "real option"
  row_node_id :: string
  row_relationships :: "(string \<times> string) list option"

definition format_row :: "graph_row \<Rightarrow> document" where
  "format_row r =
     (let rels = opt_get (row_relationships r) [];
          body = (if rels \<noteq> []
                  then row_summary r @ '' Related to: '' @
                       py_join '', '' (map (\<lambda>(relation, target). target @ '' ('' @ relation @ '')'')
                                        (take 3 rels))
                  else row_summary r)
      in \<lparr>dtype = ''graph'', title = row_title r, content = body,
          reference = ''graph:'' @ row_node_id r,
          confidence = opt_get (row_confidence r) (8 / 10),
          category = Some (opt_get (row_category r) ''general''),
          published_date = None, source = None, relationships = Some rels\<rparr>)"

definition search_knowledge_graph ::
  "bool \<Rightarrow> (string \<Rightarrow> int \<Rightarrow> exn + graph_row list) \<Rightarrow> string \<Rightarrow> int \<Rightarrow> document list" where
  "search_knowledge_graph neo4j_connected execute_query q max_r =
     (if \<not> neo4j_connected then get_fallback_graph_data q max_r
      else case execute_query q max_r of
             Inl e \<Rightarrow> get_fallback_graph_data q max_r
           | Inr rows \<Rightarrow> map format_row rows)"

section \<open>The web retriever and the similarity cache (internet_tool.py)\<close>

text \<open>
  The tool's collaborators are libraries outside the repository: the embedding model, the
  vector index (faiss), the search client (Tavily) and the file system. They are the
  fields of one record that every tool function takes. A call that may raise returns a
  sum. An index is a value of a type \<open>'ix\<close>; \<open>index_add\<close> returns the index with the vector
  added, or the exception it raised, the index being then as before. \<open>index_search\<close>
  returns the two rows \<open>distances[0]\<close> and \<open>indices[0]\<close>.
\<close>

type_synonym vec = "real list"

record tavily_item =
  item_title :: "string option"
  item_content :: "string option"
  item_url :: "string option"
  item_score :: "real option"
  item_published_date :: "string option"

record 'ix backends =
  encode :: "string \<Rightarrow> exn + vec"
  new_index :: "nat \<Rightarrow> 'ix"
  index_add :: "'ix \<Rightarrow> vec \<Rightarrow> exn + 'ix"
  index_search :: "'ix \<Rightarrow> vec \<Rightarrow> int \<Rightarrow> exn + (real list \<times> int list)"
  ntotal :: "'ix \<Rightarrow> nat"
  tavily_search :: "string \<Rightarrow> int \<Rightarrow> exn + tavily_item list"
  pickle_dump_ok :: bool

text \<open>
  The attributes of \<open>InternetSearchTool\<close>, and the content of the file
  \<open>vector_store/faiss_index.pkl\<close> (\<open>None\<close> when it was never written).
\<close>

record 'ix InternetSearchTool =
  tavily_available :: bool
  vector_store :: "'ix option"
  documents :: "document list"
  pickle_file :: "('ix option \<times> document list) option"

definition save_vector_store ::
  "'ix backends \<Rightarrow> 'ix InternetSearchTool \<Rightarrow> 'ix InternetSearchTool" where
  "save_vector_store w self =
     (if pickle_dump_ok w
      then self\<lparr>pickle_file := Some (vector_store self, documents self)\<rparr>
      else self)"

text \<open>
  The \<open>try\<close> block of \<open>_add_to_vector_store\<close>: the exception that ended it, if any, and
  the attributes as the block left them.
\<close>

definition try_add_to_vector_store ::
  "'ix backends \<Rightarrow> document \<Rightarrow> 'ix InternetSearchTool \<Rightarrow> exn option \<times> 'ix InternetSearchTool" where
  "try_add_to_vector_store w doc self =
     (case encode w (title doc @ '' '' @ take 500 (content doc)) of
        Inl e \<Rightarrow> (Some e, self)
      | Inr embedding \<Rightarrow>
          let ix = (case vector_store self of
                      None \<Rightarrow> new_index w (length embedding)
                    | Some i \<Rightarrow> i);
              self1 = self\<lparr>vector_store := Some ix\<rparr>
          in (case index_add w ix embedding of
                Inl e \<Rightarrow> (Some e, self1)
              | Inr ix' \<Rightarrow>
                  let self2 = self1\<lparr>vector_store := Some ix',
                                    documents := documents self1 @ [doc]\<rparr>
                  in (None, if length (documents self2) mod 5 = 0
                            then save_vector_store w self2 else self2)))"

text \<open>The \<open>except\<close> clause logs the exception and returns.\<close>

definition add_to_vector_store ::
  "'ix backends \<Rightarrow> document \<Rightarrow> 'ix InternetSearchTool \<Rightarrow> 'ix InternetSearchTool" where
  "add_to_vector_store w doc self = snd (try_add_to_vector_store w doc self)"

definition get_mock_internet_data :: "string \<Rightarrow> int \<Rightarrow> document list" where
  "get_mock_internet_data q max_r =
     py_take max_r
       [\<lparr>dtype = ''internet'', title = ''Research about '' @ q,
         content = ''This is mock content about '' @ q @
           ''. In a real implementation, this would be actual web search results from Tavily API.'',
         reference = ''https://example.com/mock-data'', confidence = 75 / 100,
         category = None, published_date = Some ''2024-01-01'', source = Some ''mock'',
         relationships = None\<rparr>,
        \<lparr>dtype = ''internet'', title = ''Latest developments in '' @ q,
         content = ''Mock summary of recent advancements in '' @ q @
           ''. This demonstrates the system structure when external APIs are not configured.'',
         reference = ''https://example.com/mock-news'', confidence = 70 / 100,
         category = None, published_date = Some ''2024-01-01'', source = Some ''mock'',
         relationships = None\<rparr>]"

definition item_result :: "tavily_item \<Rightarrow> document" where
  "item_result item =
     \<lparr>dtype = ''internet'', title = opt_get (item_title item) ''No title'',
      content = opt_get (item_content item) '''',
      reference = opt_get (item_url item) '''',
      confidence = min (9 / 10) (opt_get (item_score item) 70 / 100),
      category = None,
      published_date = Some (opt_get (item_published_date item) ''''),
      source = Some ''tavily'', relationships = None\<rparr>"

text \<open>The loop over the results of the search client.\<close>

fun add_items ::
  "'ix backends \<Rightarrow> tavily_item list \<Rightarrow> document list \<Rightarrow> 'ix InternetSearchTool \<Rightarrow>
   document list \<times> 'ix InternetSearchTool" where
  "add_items w [] results self = (results, self)"
| "add_items w (item # items) results self =
     add_items w items (results @ [item_result item])
       (add_to_vector_store w (item_result item) self)"

definition tool_search_internet ::
  "'ix backends \<Rightarrow> string \<Rightarrow> int \<Rightarrow> 'ix InternetSearchTool \<Rightarrow>
   document list \<times> 'ix InternetSearchTool" where
  "tool_search_internet w q max_r self =
     (if \<not> tavily_available self then (get_mock_internet_data q max_r, self)
      else case tavily_search w q max_r of
             Inl e \<Rightarrow> (get_mock_internet_data q max_r, self)
           | Inr items \<Rightarrow> add_items w items [] self)"

text \<open>
  \<open>py_index xs i\<close> is \<open>xs[i]\<close>: a negative index counts from the end, and an index out of
  range raises (\<open>None\<close>).
\<close>

definition py_index :: "'a list \<Rightarrow> int \<Rightarrow> 'a option" where
  "py_index xs i =
     (if 0 \<le> i
      then (if nat i < length xs then Some (xs ! nat i) else None)
      else (if nat (- i) \<le> length xs then Some (xs ! (length xs - nat (- i))) else None))"

text \<open>
  The loop of \<open>semantic_search\<close> over \<open>zip(indices[0], distances[0])\<close>; \<open>None\<close> is the
  IndexError of the subscript.
\<close>

fun semantic_hits ::
  "document list \<Rightarrow> (int \<times> real) list \<Rightarrow> document list \<Rightarrow> document list option" where
  "semantic_hits docs [] results = Some results"
| "semantic_hits docs ((idx, distance) # hits) results =
     (if idx < int (length docs)
      then (case py_index docs idx of
              None \<Rightarrow> None
            | Some d \<Rightarrow>
                semantic_hits docs hits
                  (results @ [d\<lparr>confidence := max (1 / 10) (1 - distance / 10),
                                 source := Some ''semantic_search''\<rparr>]))
      else semantic_hits docs hits results)"

definition semantic_search ::
  "'ix backends \<Rightarrow> string \<Rightarrow> int \<Rightarrow> 'ix InternetSearchTool \<Rightarrow> document list" where
  "semantic_search w q max_r self =
     (case vector_store self of
        None \<Rightarrow> []
      | Some ix \<Rightarrow>
          if length (documents self) = 0 then []
          else (case encode w q of
                  Inl e \<Rightarrow> []
                | Inr query_embedding \<Rightarrow>
                    (case index_search w ix query_embedding
                            (min max_r (int (length (documents self)))) of
                       Inl e \<Rightarrow> []
                     | Inr (distances, indices) \<Rightarrow>
                         (case semantic_hits (documents self) (zip indices distances) [] of
                            None \<Rightarrow> []
                          | Some results \<Rightarrow> results))))"

section \<open>The invariant of the similarity cache and the contract of the index\<close>

text \<open>
  The size of the index, 0 while none is created, and the invariant
  \<open>index.size() == documents.length\<close>.
\<close>

definition index_size :: "'ix backends \<Rightarrow> 'ix option \<Rightarrow> nat" where
  "index_size w v = (case v of None \<Rightarrow> 0 | Some ix \<Rightarrow> ntotal w ix)"

definition cache_inv :: "'ix backends \<Rightarrow> 'ix InternetSearchTool \<Rightarrow> bool" where
  "cache_inv w self = (index_size w (vector_store self) = length (documents self))"

text \<open>
  What the tool relies on from the index library: a new index is empty and a successful
  \<open>add\<close> adds one vector; \<open>search\<close> returns at most \<open>k\<close> hits, nearest first, with
  distances that are not negative.
\<close>

definition add_contract :: "'ix backends \<Rightarrow> bool" where
  "add_contract w =
     ((\<forall>d. ntotal w (new_index w d) = 0) \<and>
      (\<forall>ix v ix'. index_add w ix v = Inr ix' \<longrightarrow> ntotal w ix' = Suc (ntotal w ix)))"

definition search_contract :: "'ix backends \<Rightarrow> bool" where
  "search_contract w =
     (\<forall>ix v k ds ids. index_search w ix v k = Inr (ds, ids) \<longrightarrow>
        length ids \<le> nat k \<and> sorted ds \<and> (\<forall>d \<in> set ds. 0 \<le> d))"

text \<open>The document a hit at a given distance is returned as.\<close>

definition as_hit :: "document \<Rightarrow> real \<Rightarrow> document" where
  "as_hit d distance =
     d\<lparr>confidence := max (1 / 10) (1 - distance / 10), source := Some ''semantic_search''\<rparr>"

text \<open>
  The document a label of the index stands for in a subscript: a negative label counts
  from the end of the list.
\<close>

definition stored_at :: "document list \<Rightarrow> int \<Rightarrow> document" where
  "stored_at docs i = docs ! (if 0 \<le> i then nat i else length docs - nat (- i))"

section \<open>The agent (langgraph_agent.py)\<close>

text \<open>
  The state of the compiled graph is a dict: \<open>process_query\<close> creates it with the keys
  \<open>query\<close>, \<open>options\<close> and \<open>context\<close>, and the two nodes add the others (\<open>None\<close> is
  a key not yet set). A context is a dict, here with string values.
\<close>

type_synonym py_dict = "(string \<times> string) list"

record structured =
  key_points :: "string list"
  summary :: string

record 's graph_state =
  g_query :: string
  g_options :: agent_options
  g_context :: py_dict
  all_results :: "document list option"
  total_sources :: "nat option"
  answer :: "string option"
  g_sources :: "'s list option"
  g_structured_output :: "structured option"

text \<open>
  \<open>_search_node\<close> calls the two retrievers, again arguments of the node. Beside the state
  it returns the calls it made, in order, each with the query and the result limit it
  passed: the effect of the node on the retrievers.
\<close>

datatype tool_call = GraphSearch string int | InternetSearch string int

definition search_node ::
  "tool \<Rightarrow> tool \<Rightarrow> 's graph_state \<Rightarrow> 's graph_state \<times> tool_call list" where
  "search_node graph_tool web_tool state =
     (let q = g_query state;
          opts = g_options state;
          (r1, c1) =
            (if opt_get (use_graph opts) True
             then ((case graph_tool q (opt_get (max_results opts) 3) of
                      Inr graph_res \<Rightarrow> graph_res
                    | Inl e \<Rightarrow> []),
                   [GraphSearch q (opt_get (max_results opts) 3)])
             else ([], []));
          (r2, c2) =
            (if opt_get (use_internet opts) True
             then ((case web_tool q (opt_get (max_results opts) 3) of
                      Inr internet_res \<Rightarrow> r1 @ internet_res
                    | Inl e \<Rightarrow> r1),
                   c1 @ [InternetSearch q (opt_get (max_results opts) 3)])
             else (r1, c1))
      in (state\<lparr>all_results := Some r2, total_sources := Some (length r2)\<rparr>, c2))"

definition count_type :: "string \<Rightarrow> document list \<Rightarrow> nat" where
  "count_type t results = length (filter (\<lambda>r. dtype r = t) results)"

definition generate_fallback_answer ::
  "'s graph_state \<Rightarrow> document list \<Rightarrow> 's graph_state" where
  "generate_fallback_answer state results =
     (let graph_count = count_type ''graph'' results;
          internet_count = count_type ''internet'' results
      in state\<lparr>answer := Some
                 (''I found information about your query from '' @ str_nat (length results) @
                  '' sources ('' @ str_nat graph_count @ '' from knowledge graph, '' @
                  str_nat internet_count @ '' from web search). '' @
                  ''Configure LLM for detailed AI responses.''),
               g_structured_output := Some
                 \<lparr>key_points = [''Graph sources: '' @ str_nat graph_count,
                                ''Internet sources: '' @ str_nat internet_count,
                                ''Fallback mode active'', ''LLM not configured''],
                  summary = ''Found '' @ str_nat (length results) @
                            '' information sources''\<rparr>\<rparr>)"

text \<open>
  \<open>_generate_node\<close>. \<open>format_sources\<close> belongs to the formatters module and is an
  argument; it may raise, and nothing in the node catches that. The language model is
  \<open>None\<close> when no key is configured; otherwise it stands for the whole \<open>try\<close> block of
  the node (building the prompt, the call, parsing the reply and reading its three keys),
  whose every exception leads to the fallback answer.
\<close>

record llm_reply =
  reply_answer :: string
  reply_key_points :: "string list"
  reply_summary :: string

definition insufficient_answer :: string where
  "insufficient_answer =
     ''I couldn'' @ [CHR 0x27] @ ''t find enough relevant information to answer your question.''"

definition generate_node ::
  "(document list \<Rightarrow> exn + 's list) \<Rightarrow> (string \<Rightarrow> document list \<Rightarrow> exn + llm_reply) option \<Rightarrow>
   's graph_state \<Rightarrow> exn + 's graph_state" where
  "generate_node format_sources llm state =
     (let results = opt_get (all_results state) []
      in if results = []
         then Inr (state\<lparr>answer := Some insufficient_answer,
                         g_sources := Some [],
                         g_structured_output := Some
                           \<lparr>key_points = [''No information found''],
                            summary = ''Unable to generate answer due to insufficient information''\<rparr>\<rparr>)
         else (case format_sources results of
                 Inl e \<Rightarrow> Inl e
               | Inr srcs \<Rightarrow>
                   let state1 =
                         (case llm of
                            None \<Rightarrow> generate_fallback_answer state results
                          | Some invoke \<Rightarrow>
                              (case invoke (g_query state) results of
                                 Inl e \<Rightarrow> generate_fallback_answer state results
                               | Inr parsed \<Rightarrow>
                                   state\<lparr>answer := Some (reply_answer parsed),
                                         g_structured_output := Some
                                           \<lparr>key_points = reply_key_points parsed,
                                            summary = reply_summary parsed\<rparr>\<rparr>))
                   in Inr (state1\<lparr>g_sources := Some srcs\<rparr>)))"

datatype 's response =
  Success string "'s list" structured "py_dict option"
| Error string string

definition empty_options :: agent_options where
  "empty_options = \<lparr>use_graph = None, use_internet = None, max_results = None\<rparr>"

text \<open>
  \<open>process_query\<close>: the graph runs \<open>search\<close>, then \<open>generate\<close>. \<open>options or {}\<close> and
  \<open>context or {}\<close> replace a missing value by the empty dict. Reading a key of the final
  state that is not set raises a KeyError, which the \<open>except\<close> clause turns into a
  response like any other exception.
\<close>

definition process_query ::
  "tool \<Rightarrow> tool \<Rightarrow> (document list \<Rightarrow> exn + 's list) \<Rightarrow>
   (string \<Rightarrow> document list \<Rightarrow> exn + llm_reply) option \<Rightarrow>
   string \<Rightarrow> agent_options option \<Rightarrow> py_dict option \<Rightarrow> 's response \<times> tool_call list" where
  "process_query graph_tool web_tool format_sources llm q opts ctx =
     (let initial_state =
            \<lparr>g_query = q, g_options = opt_get opts empty_options,
             g_context = opt_get ctx [], all_results = None, total_sources = None,
             answer = None, g_sources = None, g_structured_output = None\<rparr>;
          (state1, calls) = search_node graph_tool web_tool initial_state;
          failed = (\<lambda>m. Error ''PROCESSING_ERROR'' (''Failed to process query: '' @ m))
      in (case generate_node format_sources llm state1 of
            Inl e \<Rightarrow> failed (str_exn e)
          | Inr final_state \<Rightarrow>
              (case (answer final_state, g_sources final_state,
                     g_structured_output final_state) of
                 (Some a, Some s, Some out) \<Rightarrow>
                   Success a s out (if opt_get ctx [] \<noteq> [] then ctx else None)
               | (None, _, _) \<Rightarrow> failed (repr_str ''answer'')
               | (Some a, None, _) \<Rightarrow> failed (repr_str ''sources'')
               | (Some a, Some s, None) \<Rightarrow> failed (repr_str ''structured_output'')),
          calls))"

section \<open>The endpoint (routes/agent.py)\<close>

text \<open>
  \<open>QueryRequest\<close>: a field of the request body is either left out, and then takes the
  default of the model, or given; a given optional field may be \<open>null\<close> (\<open>None\<close>).
\<close>

datatype 'a field = Omitted | Given 'a

record query_request =
  req_query :: string
  req_context :: "py_dict option"
  req_options :: "agent_options option"

definition QueryRequest ::
  "string \<Rightarrow> py_dict option field \<Rightarrow> agent_options option field \<Rightarrow> query_request" where
  "QueryRequest q ctx opts =
     \<lparr>req_query = q,
      req_context = (case ctx of Omitted \<Rightarrow> Some [] | Given c \<Rightarrow> c),
      req_options = (case opts of
                       Omitted \<Rightarrow> Some \<lparr>use_graph = Some True, use_internet = Some True,
                                        max_results = Some 5\<rparr>
                     | Given v \<Rightarrow> v)\<rparr>"

text \<open>An \<open>HTTPException\<close>: the status code, and the code and the message of its detail.\<close>

datatype http_exception = HTTPException nat string string

text \<open>
  \<open>agent_query_endpoint\<close>, entered once the framework has resolved the authenticated
  user. \<open>process_query\<close> raises nothing, so the handler for other exceptions
  (\<open>INTERNAL_ERROR\<close>) has no branch here.
\<close>

definition agent_query_endpoint ::
  "tool \<Rightarrow> tool \<Rightarrow> (document list \<Rightarrow> exn + 's list) \<Rightarrow>
   (string \<Rightarrow> document list \<Rightarrow> exn + llm_reply) option \<Rightarrow>
   query_request \<Rightarrow> (http_exception + 's response) \<times> tool_call list" where
  "agent_query_endpoint graph_tool web_tool format_sources llm request =
     (if req_query request = [] \<or> length (py_strip (req_query request)) = 0
      then (Inl (HTTPException 400 ''INVALID_REQUEST'' ''Query cannot be empty''), [])
      else (let (result, calls) =
                  process_query graph_tool web_tool format_sources llm
                    (py_strip (req_query request)) (req_options request) (req_context request)
            in (Inr result, calls)))"

section \<open>The routing rule as the specification words it\<close>

text \<open>
  The recency rule of the specification: one of ten keywords, or the four digits of the
  current or of the next year. The year is an argument.
\<close>

definition spec_recency_keywords :: "string list" where
  "spec_recency_keywords =
     [''latest'', ''recent'', ''news'', ''update'', ''current'', ''today'', ''yesterday'',
      ''this week'', ''this month'', ''trending'']"

definition spec_needs_internet :: "nat \<Rightarrow> string \<Rightarrow> bool" where
  "spec_needs_internet year q =
     any_in (spec_recency_keywords @ [str_nat year, str_nat (year + 1)]) q"

section \<open>Concrete inputs\<close>

text \<open>A run state that has used up its five iterations while a search step is pending.\<close>

definition demo_state :: "(unit, unit) AgentState" where
  "demo_state = \<lparr>query = ''What is AI?'', options = empty_options, steps_completed = [],
     next_step = Some ''search_graph'', graph_results = [], internet_results = [],
     semantic_results = [], all_contexts = [], reasoning = [], iterations = 5,
     final_answer = [], sources = (), structured_output = (), should_continue_flag = True,
     max_iterations_reached = False, error = None, last_error = None\<rparr>"

text \<open>
  Retrievers for running the nodes: one that raises, the mock web search, and a cache
  lookup that finds nothing; and the state of the graph for one query.
\<close>

definition failing_tool :: tool where
  "failing_tool q k = Inl (Exception ''timeout'')"

definition mock_web_tool :: tool where
  "mock_web_tool q k = Inr (get_mock_internet_data q k)"

definition empty_cache_tool :: tool where
  "empty_cache_tool q k = Inr []"

definition demo_graph_state :: "string graph_state" where
  "demo_graph_state = \<lparr>g_query = ''What is AI?'', g_options = empty_options, g_context = [],
     all_results = None, total_sources = None, answer = None, g_sources = None,
     g_structured_output = None\<rparr>"

text \<open>
  Backends for running the tool: an embedding of one dimension (the length of the text),
  a flat index that keeps its vectors in a list, rejects a vector of another dimension
  and ranks by squared Euclidean distance, a search client that finds nothing and a
  file system that works. Then the tool as \<open>__init__\<close> leaves it without a pickle file,
  two documents, and the cache holding both.
\<close>

definition l2_distance :: "vec \<Rightarrow> vec \<Rightarrow> real" where
  "l2_distance a b = sum_list (map (\<lambda>(x, y). (x - y) * (x - y)) (zip a b))"

definition flat_add :: "nat \<times> vec list \<Rightarrow> vec \<Rightarrow> exn + nat \<times> vec list" where
  "flat_add ix v =
     (if length v = fst ix then Inr (fst ix, snd ix @ [v])
      else Inl (Exception ''dimension mismatch''))"

definition flat_search ::
  "nat \<times> vec list \<Rightarrow> vec \<Rightarrow> int \<Rightarrow> exn + (real list \<times> int list)" where
  "flat_search ix v k =
     (if k \<le> 0 then Inl (Exception ''k must be positive'')
      else let ranked = take (nat k)
                 (sort_key fst (zip (map (l2_distance v) (snd ix))
                                    (map int [0..<length (snd ix)])))
           in Inr (map fst ranked, map snd ranked))"

definition flat_backends :: "(nat \<times> vec list) backends" where
  "flat_backends =
     \<lparr>encode = (\<lambda>s. Inr [real (length s)]),
      new_index = (\<lambda>d. (d, [])),
      index_add = flat_add,
      index_search = flat_search,
      ntotal = (\<lambda>ix. length (snd ix)),
      tavily_search = (\<lambda>q k. Inr []),
      pickle_dump_ok = True\<rparr>"

definition fresh_tool :: "(nat \<times> vec list) InternetSearchTool" where
  "fresh_tool = \<lparr>tavily_available = False, vector_store = None, documents = [],
                 pickle_file = None\<rparr>"

definition doc_a :: document where
  "doc_a = \<lparr>dtype = ''internet'', title = ''a'', content = '''', reference = ''https://a'',
            confidence = 9 / 10, category = None, published_date = Some '''',
            source = Some ''tavily'', relationships = None\<rparr>"

definition doc_b :: document where
  "doc_b = \<lparr>dtype = ''internet'', title = ''abcd'', content = '''', reference = ''https://b'',
            confidence = 7 / 10, category = None, published_date = Some '''',
            source = Some ''tavily'', relationships = None\<rparr>"

definition demo_cache :: "(nat \<times> vec list) InternetSearchTool" where
  "demo_cache =
     add_to_vector_store flat_backends doc_b (add_to_vector_store flat_backends doc_a fresh_tool)"

text \<open>
  Options that switch both retrievers off, a formatter of sources that keeps the titles,
  and the graph retriever without a backend connection, as a tool.
\<close>

definition no_retrievers :: agent_options where
  "no_retrievers = \<lparr>use_graph = Some False, use_internet = Some False, max_results = None\<rparr>"

definition title_sources :: "document list \<Rightarrow> exn + string list" where
  "title_sources ds = Inr (map title ds)"

definition mock_graph_tool :: tool where
  "mock_graph_tool q k = Inr (search_knowledge_graph False (\<lambda>q k. Inr []) q k)"

section \<open>Theorems\<close>

text \<open>
  C10. For every query and every options value, \<open>route_query\<close> stores \<open>analyze_query\<close> in
  \<open>next_step\<close>: the schedule it computes always starts with that step, and the whole
  schedule goes only into the reasoning trace, as one string. The step also appends
  \<open>route_query\<close> to the completed steps and changes nothing else.
\<close>

theorem route_query_next_step:
  "route_query state =
     state\<lparr>next_step := Some ''analyze_query'',
           steps_completed := steps_completed state @ [''route_query''],
           reasoning := reasoning state @
             [''Query routed to steps: '' @
              py_join '', '' (route_steps (options state) (query state))]\<rparr>
   \<and> hd (route_steps (options state) (query state)) = ''analyze_query''"
  by (simp add: route_query_def route_steps_def Let_def)

text \<open>No node and no call of the guard changes the counter of iterations.\<close>

lemma node_iterations:
  "iterations (snd (should_continue s)) = iterations s"
  "iterations (route_query s) = iterations s"
  "iterations (analyze_query s) = iterations s"
  "iterations (search_graph graph_tool s) = iterations s"
  "iterations (search_internet web_tool cache_tool s) = iterations s"
  "iterations (format_final_answer fs cso s) = iterations s"
  by (simp_all add: should_continue_def route_query_def analyze_query_def search_graph_def
      search_internet_def format_final_answer_def Let_def split: sum.split)

lemma apply_transition_iterations:
  "iterations (apply_transition gt wt ct fs cso t s) = iterations s"
  by (cases t) (simp_all add: node_iterations)

lemma run_transitions_iterations:
  "iterations (run_transitions gt wt ct fs cso ts s) = iterations s"
  by (induction ts arbitrary: s) (simp_all add: apply_transition_iterations)

text \<open>
  C1. The loop bound. When the counter \<open>iterations\<close> has reached 5, \<open>should_continue\<close>
  answers \<open>finish\<close> and sets \<open>max_iterations_reached\<close>, whatever the pending \<open>next_step\<close>
  and the collected contexts are. Whenever it lets the run go on, the counter is below 5,
  so one more cycle keeps it at 5 or less. No node and no call of the guard changes the
  counter, so every transition preserves \<open>iterations \<le> 5\<close>, and the bound holds at the end
  of every sequence of transitions that starts within it.
\<close>

theorem should_continue_loop_bound:
  "(5 \<le> iterations s \<longrightarrow>
      fst (should_continue s) = ''finish'' \<and> max_iterations_reached (snd (should_continue s)))
   \<and> (fst (should_continue s) \<noteq> ''finish'' \<longrightarrow> iterations s + 1 \<le> 5)
   \<and> iterations (snd (should_continue s)) = iterations s
   \<and> iterations (route_query s) = iterations s
   \<and> iterations (analyze_query s) = iterations s
   \<and> iterations (search_graph graph_tool s) = iterations s
   \<and> iterations (search_internet web_tool cache_tool s) = iterations s
   \<and> iterations (format_final_answer fs cso s) = iterations s
   \<and> (iterations s \<le> 5 \<longrightarrow>
        iterations (run_transitions graph_tool web_tool cache_tool fs cso ts s) \<le> 5)"
proof -
  have guard: "5 \<le> iterations s \<longrightarrow>
      fst (should_continue s) = ''finish'' \<and> max_iterations_reached (snd (should_continue s))"
    by (simp add: should_continue_def)
  have open_gate: "fst (should_continue s) \<noteq> ''finish'' \<longrightarrow> iterations s + 1 \<le> 5"
    by (simp add: should_continue_def Let_def split: if_splits)
  have run: "iterations s \<le> 5 \<longrightarrow>
        iterations (run_transitions graph_tool web_tool cache_tool fs cso ts s) \<le> 5"
    by (simp add: run_transitions_iterations)
  from guard open_gate run show ?thesis
    by (simp only: node_iterations simp_thms)
qed

theorem should_continue_loop_bound_witness:
  "5 \<le> iterations demo_state
   \<and> fst (should_continue demo_state) = ''finish''
   \<and> max_iterations_reached (snd (should_continue demo_state))
   \<and> fst (should_continue (demo_state\<lparr>iterations := 4\<rparr>)) = ''continue''
   \<and> iterations (demo_state\<lparr>iterations := 4\<rparr>) + 1 \<le> 5
   \<and> iterations (run_transitions failing_tool mock_web_tool empty_cache_tool
         (\<lambda>ds. ()) (\<lambda>a srcs r. ())
         [Route, Guard, Analyze, Guard, SearchGraph, Guard, SearchInternet, Guard, Format]
         (demo_state\<lparr>iterations := 4\<rparr>)) \<le> 5"
proof -
  have a: "5 \<le> iterations demo_state" by (simp add: demo_state_def)
  have b: "fst (should_continue (demo_state\<lparr>iterations := 4\<rparr>)) = ''continue''"
    by (simp add: demo_state_def should_continue_def truthy_step_def)
  then have c: "fst (should_continue (demo_state\<lparr>iterations := 4\<rparr>)) \<noteq> ''finish''" by simp
  have d: "iterations (demo_state\<lparr>iterations := 4\<rparr>) \<le> 5" by simp
  from a b c d
    should_continue_loop_bound [where s = demo_state and graph_tool = failing_tool
      and web_tool = mock_web_tool and cache_tool = empty_cache_tool
      and fs = "\<lambda>ds. ()" and cso = "\<lambda>a srcs r. ()" and ts = "[]"]
    should_continue_loop_bound [where s = "demo_state\<lparr>iterations := 4\<rparr>"
      and graph_tool = failing_tool
      and web_tool = mock_web_tool and cache_tool = empty_cache_tool
      and fs = "\<lambda>ds. ()" and cso = "\<lambda>a srcs r. ()"
      and ts = "[Route, Guard, Analyze, Guard, SearchGraph, Guard, SearchInternet, Guard, Format]"]
  show ?thesis by blast
qed

text \<open>Each search node when a retriever raises, and when none does.\<close>

lemma search_graph_raises:
  assumes "opt_get (use_graph (options s)) True"
    and "graph_tool (query s) (opt_get (max_results (options s)) 5) = Inl e"
  shows "search_graph graph_tool s =
           s\<lparr>last_error := Some (''Graph search error: '' @ str_exn e),
             steps_completed := steps_completed s @ [''search_graph''],
             next_step := Some (if opt_get (use_internet (options s)) True
                                then ''search_internet'' else ''generate_answer'')\<rparr>"
  using assms by (simp add: search_graph_def Let_def)

lemma search_internet_raises:
  assumes "opt_get (use_internet (options s)) True"
    and "web_tool (query s) (opt_get (max_results (options s)) 5) = Inl e"
  shows "search_internet web_tool cache_tool s =
           s\<lparr>last_error := Some (''Internet search error: '' @ str_exn e),
             steps_completed := steps_completed s @ [''search_internet''],
             next_step := Some ''generate_answer''\<rparr>"
  using assms by (simp add: search_internet_def Let_def)

lemma search_internet_cache_raises:
  assumes "opt_get (use_internet (options s)) True"
    and "web_tool (query s) (opt_get (max_results (options s)) 5) = Inr docs"
    and "cache_tool (query s) (opt_get (max_results (options s)) 5 div 2) = Inl e"
  shows "search_internet web_tool cache_tool s =
           s\<lparr>internet_results := docs, all_contexts := all_contexts s @ docs,
             last_error := Some (''Internet search error: '' @ str_exn e),
             steps_completed := steps_completed s @ [''search_internet''],
             next_step := Some ''generate_answer''\<rparr>"
  using assms by (simp add: search_internet_def Let_def)

lemma search_internet_ok:
  assumes "opt_get (use_internet (options s)) True"
    and "web_tool (query s) (opt_get (max_results (options s)) 5) = Inr docs"
    and "cache_tool (query s) (opt_get (max_results (options s)) 5 div 2) = Inr sem"
  shows "all_contexts (search_internet web_tool cache_tool s) = all_contexts s @ docs @ sem"
    and "last_error (search_internet web_tool cache_tool s) = last_error s"
    and "steps_completed (search_internet web_tool cache_tool s) =
           steps_completed s @ [''search_internet'']"
  using assms by (simp_all add: search_internet_def Let_def)

lemma search_node_graph_raises:
  assumes "graph_tool (g_query g) (opt_get (max_results (g_options g)) 3) = Inl e"
  shows "search_node graph_tool web_tool g = search_node (\<lambda>q k. Inr []) web_tool g"
  using assms by (simp add: search_node_def Let_def split: sum.split)

lemma search_node_web_raises:
  assumes "web_tool (g_query g) (opt_get (max_results (g_options g)) 3) = Inl e"
  shows "search_node graph_tool web_tool g = search_node graph_tool (\<lambda>q k. Inr []) g"
  using assms by (simp add: search_node_def Let_def split: sum.split prod.split)

lemma search_node_graph_fails:
  assumes "opt_get (use_graph (g_options g)) True"
    and "opt_get (use_internet (g_options g)) True"
    and "graph_tool (g_query g) (opt_get (max_results (g_options g)) 3) = Inl e"
    and "web_tool (g_query g) (opt_get (max_results (g_options g)) 3) = Inr docs"
  shows "search_node graph_tool web_tool g =
           (g\<lparr>all_results := Some docs, total_sources := Some (length docs)\<rparr>,
            [GraphSearch (g_query g) (opt_get (max_results (g_options g)) 3),
             InternetSearch (g_query g) (opt_get (max_results (g_options g)) 3)])"
  using assms by (simp add: search_node_def Let_def)

lemma search_node_web_fails:
  assumes "opt_get (use_graph (g_options g)) True"
    and "opt_get (use_internet (g_options g)) True"
    and "graph_tool (g_query g) (opt_get (max_results (g_options g)) 3) = Inr docs"
    and "web_tool (g_query g) (opt_get (max_results (g_options g)) 3) = Inl e"
  shows "search_node graph_tool web_tool g =
           (g\<lparr>all_results := Some docs, total_sources := Some (length docs)\<rparr>,
            [GraphSearch (g_query g) (opt_get (max_results (g_options g)) 3),
             InternetSearch (g_query g) (opt_get (max_results (g_options g)) 3)])"
  using assms by (simp add: search_node_def Let_def)

lemma search_node_both_fail:
  assumes "opt_get (use_graph (g_options g)) True"
    and "opt_get (use_internet (g_options g)) True"
    and "graph_tool (g_query g) (opt_get (max_results (g_options g)) 3) = Inl e"
    and "web_tool (g_query g) (opt_get (max_results (g_options g)) 3) = Inl e'"
  shows "search_node graph_tool web_tool g =
           (g\<lparr>all_results := Some [], total_sources := Some 0\<rparr>,
            [GraphSearch (g_query g) (opt_get (max_results (g_options g)) 3),
             InternetSearch (g_query g) (opt_get (max_results (g_options g)) 3)])"
  using assms by (simp add: search_node_def Let_def)

text \<open>
  C2, as the code has it. An exception raised inside a retriever step does not abort the
  run, and the source that raised contributes no document. In \<open>search_graph\<close> and
  \<open>search_internet\<close> the exception is recorded in \<open>last_error\<close> (what an earlier call of
  the same step had already appended stays), the step is appended to \<open>steps_completed\<close>
  and \<open>next_step\<close> is advanced; after a failed graph search the internet search still
  runs and appends its documents. \<open>_search_node\<close> only logs the exception: its state has
  no \<open>last_error\<close> key, no list of completed steps and no \<open>next_step\<close>. It still calls
  both retrievers, and \<open>all_results\<close> holds exactly the documents of the retriever that
  did not raise, or none when both raised.
\<close>

theorem retriever_exception_isolated:
  "(opt_get (use_graph (options s)) True \<and>
    graph_tool (query s) (opt_get (max_results (options s)) 5) = Inl e \<longrightarrow>
      search_graph graph_tool s =
        s\<lparr>last_error := Some (''Graph search error: '' @ str_exn e),
          steps_completed := steps_completed s @ [''search_graph''],
          next_step := Some (if opt_get (use_internet (options s)) True
                             then ''search_internet'' else ''generate_answer'')\<rparr>)
   \<and> (opt_get (use_internet (options s)) True \<and>
      web_tool (query s) (opt_get (max_results (options s)) 5) = Inl e \<longrightarrow>
      search_internet web_tool cache_tool s =
        s\<lparr>last_error := Some (''Internet search error: '' @ str_exn e),
          steps_completed := steps_completed s @ [''search_internet''],
          next_step := Some ''generate_answer''\<rparr>)
   \<and> (opt_get (use_internet (options s)) True \<and>
      web_tool (query s) (opt_get (max_results (options s)) 5) = Inr docs \<and>
      cache_tool (query s) (opt_get (max_results (options s)) 5 div 2) = Inl e \<longrightarrow>
      search_internet web_tool cache_tool s =
        s\<lparr>internet_results := docs, all_contexts := all_contexts s @ docs,
          last_error := Some (''Internet search error: '' @ str_exn e),
          steps_completed := steps_completed s @ [''search_internet''],
          next_step := Some ''generate_answer''\<rparr>)
   \<and> (opt_get (use_graph (options s)) True \<and> opt_get (use_internet (options s)) True \<and>
      graph_tool (query s) (opt_get (max_results (options s)) 5) = Inl e \<and>
      web_tool (query s) (opt_get (max_results (options s)) 5) = Inr docs \<and>
      cache_tool (query s) (opt_get (max_results (options s)) 5 div 2) = Inr sem \<longrightarrow>
      all_contexts (search_internet web_tool cache_tool (search_graph graph_tool s)) =
        all_contexts s @ docs @ sem \<and>
      last_error (search_internet web_tool cache_tool (search_graph graph_tool s)) =
        Some (''Graph search error: '' @ str_exn e) \<and>
      steps_completed (search_internet web_tool cache_tool (search_graph graph_tool s)) =
        steps_completed s @ [''search_graph'', ''search_internet''])
   \<and> (graph_tool (g_query g) (opt_get (max_results (g_options g)) 3) = Inl e \<longrightarrow>
      search_node graph_tool web_tool g = search_node (\<lambda>q k. Inr []) web_tool g)
   \<and> (web_tool (g_query g) (opt_get (max_results (g_options g)) 3) = Inl e \<longrightarrow>
      search_node graph_tool web_tool g = search_node graph_tool (\<lambda>q k. Inr []) g)
   \<and> (opt_get (use_graph (g_options g)) True \<and> opt_get (use_internet (g_options g)) True \<and>
      graph_tool (g_query g) (opt_get (max_results (g_options g)) 3) = Inl e \<and>
      web_tool (g_query g) (opt_get (max_results (g_options g)) 3) = Inr docs \<longrightarrow>
      search_node graph_tool web_tool g =
        (g\<lparr>all_results := Some docs, total_sources := Some (length docs)\<rparr>,
         [GraphSearch (g_query g) (opt_get (max_results (g_options g)) 3),
          InternetSearch (g_query g) (opt_get (max_results (g_options g)) 3)]))
   \<and> (opt_get (use_graph (g_options g)) True \<and> opt_get (use_internet (g_options g)) True \<and>
      graph_tool (g_query g) (opt_get (max_results (g_options g)) 3) = Inr docs \<and>
      web_tool (g_query g) (opt_get (max_results (g_options g)) 3) = Inl e \<longrightarrow>
      search_node graph_tool web_tool g =
        (g\<lparr>all_results := Some docs, total_sources := Some (length docs)\<rparr>,
         [GraphSearch (g_query g) (opt_get (max_results (g_options g)) 3),
          InternetSearch (g_query g) (opt_get (max_results (g_options g)) 3)]))
   \<and> (opt_get (use_graph (g_options g)) True \<and> opt_get (use_internet (g_options g)) True \<and>
      graph_tool (g_query g) (opt_get (max_results (g_options g)) 3) = Inl e \<and>
      web_tool (g_query g) (opt_get (max_results (g_options g)) 3) = Inl e \<longrightarrow>
      search_node graph_tool web_tool g =
        (g\<lparr>all_results := Some [], total_sources := Some 0\<rparr>,
         [GraphSearch (g_query g) (opt_get (max_results (g_options g)) 3),
          InternetSearch (g_query g) (opt_get (max_results (g_options g)) 3)]))"
proof -
  have both: "all_contexts (search_internet web_tool cache_tool (search_graph graph_tool s)) =
        all_contexts s @ docs @ sem \<and>
      last_error (search_internet web_tool cache_tool (search_graph graph_tool s)) =
        Some (''Graph search error: '' @ str_exn e) \<and>
      steps_completed (search_internet web_tool cache_tool (search_graph graph_tool s)) =
        steps_completed s @ [''search_graph'', ''search_internet'']"
    if ug: "opt_get (use_graph (options s)) True"
      and ui: "opt_get (use_internet (options s)) True"
      and gr: "graph_tool (query s) (opt_get (max_results (options s)) 5) = Inl e"
      and wr: "web_tool (query s) (opt_get (max_results (options s)) 5) = Inr docs"
      and cr: "cache_tool (query s) (opt_get (max_results (options s)) 5 div 2) = Inr sem"
  proof -
    let ?s1 = "search_graph graph_tool s"
    have s1: "?s1 = s\<lparr>last_error := Some (''Graph search error: '' @ str_exn e),
             steps_completed := steps_completed s @ [''search_graph''],
             next_step := Some ''search_internet''\<rparr>"
      using search_graph_raises [of s graph_tool e] ug gr ui by simp
    have q1: "query ?s1 = query s" and o1: "options ?s1 = options s" by (simp_all add: s1)
    from ui wr cr have h: "opt_get (use_internet (options ?s1)) True"
      "web_tool (query ?s1) (opt_get (max_results (options ?s1)) 5) = Inr docs"
      "cache_tool (query ?s1) (opt_get (max_results (options ?s1)) 5 div 2) = Inr sem"
      by (simp_all add: q1 o1)
    from search_internet_ok [of ?s1 web_tool docs cache_tool sem] h
    show ?thesis by (simp add: s1)
  qed
  show ?thesis
    using search_graph_raises [of s graph_tool e]
      search_internet_raises [of s web_tool e cache_tool]
      search_internet_cache_raises [of s web_tool docs cache_tool e]
      both
      search_node_graph_raises [of graph_tool g e web_tool]
      search_node_web_raises [of web_tool g e graph_tool]
      search_node_graph_fails [of g graph_tool e web_tool docs]
      search_node_web_fails [of g graph_tool docs web_tool e]
      search_node_both_fail [of g graph_tool e web_tool e]
    by blast
qed


theorem retriever_exception_isolated_witness:
  "last_error (search_graph failing_tool demo_state) = Some ''Graph search error: timeout''
   \<and> all_contexts (search_graph failing_tool demo_state) = []
   \<and> steps_completed (search_graph failing_tool demo_state) = [''search_graph'']
   \<and> next_step (search_graph failing_tool demo_state) = Some ''search_internet''
   \<and> all_contexts (search_internet mock_web_tool empty_cache_tool
         (search_graph failing_tool demo_state)) = get_mock_internet_data ''What is AI?'' 5
   \<and> last_error (search_internet failing_tool empty_cache_tool demo_state) =
         Some ''Internet search error: timeout''
   \<and> all_contexts (search_internet failing_tool empty_cache_tool demo_state) = []
   \<and> next_step (search_internet failing_tool empty_cache_tool demo_state) =
         Some ''generate_answer''
   \<and> all_contexts (search_internet mock_web_tool failing_tool demo_state) =
         get_mock_internet_data ''What is AI?'' 5
   \<and> last_error (search_internet mock_web_tool failing_tool demo_state) =
         Some ''Internet search error: timeout''
   \<and> search_node failing_tool mock_web_tool demo_graph_state =
         search_node (\<lambda>q k. Inr []) mock_web_tool demo_graph_state
   \<and> search_node mock_web_tool failing_tool demo_graph_state =
         search_node mock_web_tool (\<lambda>q k. Inr []) demo_graph_state
   \<and> search_node failing_tool mock_web_tool demo_graph_state =
         (demo_graph_state\<lparr>all_results := Some (get_mock_internet_data ''What is AI?'' 3),
                            total_sources := Some 2\<rparr>,
          [GraphSearch ''What is AI?'' 3, InternetSearch ''What is AI?'' 3])
   \<and> search_node mock_web_tool failing_tool demo_graph_state =
         (demo_graph_state\<lparr>all_results := Some (get_mock_internet_data ''What is AI?'' 3),
                            total_sources := Some 2\<rparr>,
          [GraphSearch ''What is AI?'' 3, InternetSearch ''What is AI?'' 3])
   \<and> search_node failing_tool failing_tool demo_graph_state =
         (demo_graph_state\<lparr>all_results := Some [], total_sources := Some 0\<rparr>,
          [GraphSearch ''What is AI?'' 3, InternetSearch ''What is AI?'' 3])"
proof -
  let ?e = "Exception ''timeout''"
  let ?docs = "get_mock_internet_data ''What is AI?'' 5"
  let ?k = "opt_get (max_results (options demo_state)) 5"
  have ug: "opt_get (use_graph (options demo_state)) True"
    and ui: "opt_get (use_internet (options demo_state)) True"
    by (simp_all add: demo_state_def empty_options_def opt_get_def)
  have f: "failing_tool (query demo_state) ?k = Inl ?e"
    and f2: "failing_tool (query demo_state) (?k div 2) = Inl ?e"
    and f3: "failing_tool (g_query demo_graph_state)
               (opt_get (max_results (g_options demo_graph_state)) 3) = Inl ?e"
    by (simp_all add: failing_tool_def)
  have m: "mock_web_tool (query demo_state) ?k = Inr ?docs"
    by (simp add: mock_web_tool_def demo_state_def empty_options_def opt_get_def)
  have c0: "empty_cache_tool (query demo_state) (?k div 2) = Inr []"
    by (simp add: empty_cache_tool_def)
  from ug ui f m c0
    retriever_exception_isolated [where s = demo_state and graph_tool = failing_tool
        and web_tool = mock_web_tool and cache_tool = empty_cache_tool
        and e = ?e and docs = ?docs and sem = "[]" and g = demo_graph_state]
  have a: "search_graph failing_tool demo_state =
      demo_state\<lparr>last_error := Some (''Graph search error: '' @ str_exn ?e),
        steps_completed := steps_completed demo_state @ [''search_graph''],
        next_step := Some (if opt_get (use_internet (options demo_state)) True
                           then ''search_internet'' else ''generate_answer'')\<rparr>"
    and a': "all_contexts (search_internet mock_web_tool empty_cache_tool
         (search_graph failing_tool demo_state)) = all_contexts demo_state @ ?docs @ []"
    by blast+
  from ui f
    retriever_exception_isolated [where s = demo_state and graph_tool = failing_tool
        and web_tool = failing_tool and cache_tool = empty_cache_tool
        and e = ?e and docs = "[]" and sem = "[]" and g = demo_graph_state]
  have b: "search_internet failing_tool empty_cache_tool demo_state =
      demo_state\<lparr>last_error := Some (''Internet search error: '' @ str_exn ?e),
        steps_completed := steps_completed demo_state @ [''search_internet''],
        next_step := Some ''generate_answer''\<rparr>"
    by blast
  from ui m f2
    retriever_exception_isolated [where s = demo_state and graph_tool = failing_tool
        and web_tool = mock_web_tool and cache_tool = failing_tool
        and e = ?e and docs = ?docs and sem = "[]" and g = demo_graph_state]
  have c: "search_internet mock_web_tool failing_tool demo_state =
      demo_state\<lparr>internet_results := ?docs, all_contexts := all_contexts demo_state @ ?docs,
        last_error := Some (''Internet search error: '' @ str_exn ?e),
        steps_completed := steps_completed demo_state @ [''search_internet''],
        next_step := Some ''generate_answer''\<rparr>"
    by blast
  from f3
    retriever_exception_isolated [where s = demo_state and graph_tool = failing_tool
        and web_tool = mock_web_tool and cache_tool = empty_cache_tool
        and e = ?e and docs = ?docs and sem = "[]" and g = demo_graph_state]
  have d: "search_node failing_tool mock_web_tool demo_graph_state =
         search_node (\<lambda>q k. Inr []) mock_web_tool demo_graph_state"
    by blast
  from f3
    retriever_exception_isolated [where s = demo_state and graph_tool = mock_web_tool
        and web_tool = failing_tool and cache_tool = empty_cache_tool
        and e = ?e and docs = ?docs and sem = "[]" and g = demo_graph_state]
  have e: "search_node mock_web_tool failing_tool demo_graph_state =
         search_node mock_web_tool (\<lambda>q k. Inr []) demo_graph_state"
    by blast
  have ds: "all_contexts demo_state = []" "steps_completed demo_state = []"
    by (simp_all add: demo_state_def)
  have a1: "last_error (search_graph failing_tool demo_state) =
        Some ''Graph search error: timeout''"
    "all_contexts (search_graph failing_tool demo_state) = []"
    "steps_completed (search_graph failing_tool demo_state) = [''search_graph'']"
    "next_step (search_graph failing_tool demo_state) = Some ''search_internet''"
    by (simp_all add: a ds ui)
  have b1: "last_error (search_internet failing_tool empty_cache_tool demo_state) =
        Some ''Internet search error: timeout''"
    "all_contexts (search_internet failing_tool empty_cache_tool demo_state) = []"
    "next_step (search_internet failing_tool empty_cache_tool demo_state) =
        Some ''generate_answer''"
    by (simp_all add: b ds)
  have c1: "all_contexts (search_internet mock_web_tool failing_tool demo_state) = ?docs"
    "last_error (search_internet mock_web_tool failing_tool demo_state) =
        Some ''Internet search error: timeout''"
    by (simp_all add: c ds)
  from a' have a2: "all_contexts (search_internet mock_web_tool empty_cache_tool
         (search_graph failing_tool demo_state)) = ?docs"
    by (simp add: ds)
  let ?d3 = "get_mock_internet_data ''What is AI?'' 3"
  let ?k3 = "opt_get (max_results (g_options demo_graph_state)) 3"
  have gq: "g_query demo_graph_state = ''What is AI?''" and k3: "?k3 = 3"
    and gu: "opt_get (use_graph (g_options demo_graph_state)) True"
    and gi: "opt_get (use_internet (g_options demo_graph_state)) True"
    by (simp_all add: demo_graph_state_def empty_options_def opt_get_def)
  have m3: "mock_web_tool (g_query demo_graph_state) ?k3 = Inr ?d3"
    by (simp add: mock_web_tool_def gq k3)
  have l3: "length ?d3 = 2" by (simp add: get_mock_internet_data_def py_take_def)
  from gu gi f3 m3
    retriever_exception_isolated [where s = demo_state and graph_tool = failing_tool
        and web_tool = mock_web_tool and cache_tool = empty_cache_tool
        and e = ?e and docs = ?d3 and sem = "[]" and g = demo_graph_state]
  have n1: "search_node failing_tool mock_web_tool demo_graph_state =
        (demo_graph_state\<lparr>all_results := Some ?d3, total_sources := Some (length ?d3)\<rparr>,
         [GraphSearch (g_query demo_graph_state) ?k3,
          InternetSearch (g_query demo_graph_state) ?k3])"
    by blast
  from gu gi f3 m3
    retriever_exception_isolated [where s = demo_state and graph_tool = mock_web_tool
        and web_tool = failing_tool and cache_tool = empty_cache_tool
        and e = ?e and docs = ?d3 and sem = "[]" and g = demo_graph_state]
  have n2: "search_node mock_web_tool failing_tool demo_graph_state =
        (demo_graph_state\<lparr>all_results := Some ?d3, total_sources := Some (length ?d3)\<rparr>,
         [GraphSearch (g_query demo_graph_state) ?k3,
          InternetSearch (g_query demo_graph_state) ?k3])"
    by blast
  from gu gi f3
    retriever_exception_isolated [where s = demo_state and graph_tool = failing_tool
        and web_tool = failing_tool and cache_tool = empty_cache_tool
        and e = ?e and docs = ?d3 and sem = "[]" and g = demo_graph_state]
  have n3: "search_node failing_tool failing_tool demo_graph_state =
        (demo_graph_state\<lparr>all_results := Some [], total_sources := Some 0\<rparr>,
         [GraphSearch (g_query demo_graph_state) ?k3,
          InternetSearch (g_query demo_graph_state) ?k3])"
    by blast
  note n = n1 [unfolded gq k3 l3] n2 [unfolded gq k3 l3] n3 [unfolded gq k3]
  from a1 a2 b1 c1 d e n show ?thesis by blast
qed

text \<open>
  The claim as stated fails on \<open>_search_node\<close>, the orchestrator that \<open>process_query\<close>
  runs: when the graph search raises, the state afterwards is the state before with
  \<open>all_results\<close> and \<open>total_sources\<close> written, the same as when the graph search finds
  nothing, and the response is a success that mentions no error. The exception is
  recorded nowhere in the run state.
\<close>

theorem search_node_unrecorded_counterexample:
  "search_node failing_tool mock_web_tool demo_graph_state =
     (demo_graph_state\<lparr>all_results := Some (get_mock_internet_data ''What is AI?'' 3),
                        total_sources := Some 2\<rparr>,
      [GraphSearch ''What is AI?'' 3, InternetSearch ''What is AI?'' 3])
   \<and> search_node failing_tool mock_web_tool demo_graph_state =
       search_node empty_cache_tool mock_web_tool demo_graph_state
   \<and> fst (process_query failing_tool mock_web_tool title_sources None ''What is AI?''
            None None) =
       Success
         ''I found information about your query from 2 sources (0 from knowledge graph, 2 from web search). Configure LLM for detailed AI responses.''
         [''Research about What is AI?'', ''Latest developments in What is AI?'']
         \<lparr>key_points = [''Graph sources: 0'', ''Internet sources: 2'',
                         ''Fallback mode active'', ''LLM not configured''],
          summary = ''Found 2 information sources''\<rparr>
         None"
proof -
  have s: "str_nat 0 = ''0''" "str_nat 2 = ''2''" "str_nat (Suc (Suc 0)) = ''2''"
    by code_simp+
  have a: "search_node failing_tool mock_web_tool demo_graph_state =
     (demo_graph_state\<lparr>all_results := Some (get_mock_internet_data ''What is AI?'' 3),
                        total_sources := Some 2\<rparr>,
      [GraphSearch ''What is AI?'' 3, InternetSearch ''What is AI?'' 3])"
    by (simp add: search_node_def Let_def demo_graph_state_def empty_options_def opt_get_def
        failing_tool_def mock_web_tool_def get_mock_internet_data_def py_take_def)
  have b: "search_node failing_tool mock_web_tool demo_graph_state =
       search_node empty_cache_tool mock_web_tool demo_graph_state"
    by (simp add: search_node_def Let_def failing_tool_def empty_cache_tool_def)
  have c: "fst (process_query failing_tool mock_web_tool title_sources None ''What is AI?''
            None None) =
       Success
         ''I found information about your query from 2 sources (0 from knowledge graph, 2 from web search). Configure LLM for detailed AI responses.''
         [''Research about What is AI?'', ''Latest developments in What is AI?'']
         \<lparr>key_points = [''Graph sources: 0'', ''Internet sources: 2'',
                         ''Fallback mode active'', ''LLM not configured''],
          summary = ''Found 2 information sources''\<rparr>
         None"
    by (simp add: process_query_def search_node_def Let_def empty_options_def opt_get_def
        failing_tool_def mock_web_tool_def get_mock_internet_data_def py_take_def
        generate_node_def generate_fallback_answer_def count_type_def title_sources_def s)
  from a b c show ?thesis by blast
qed

text \<open>The insertion into the cache, by the outcome of its \<open>try\<close> block.\<close>

lemma save_vector_store_fields:
  "vector_store (save_vector_store w self) = vector_store self"
  "documents (save_vector_store w self) = documents self"
  by (simp_all add: save_vector_store_def)

lemma try_add_encode_raises:
  assumes "encode w (title doc @ '' '' @ take 500 (content doc)) = Inl e"
  shows "try_add_to_vector_store w doc self = (Some e, self)"
  using assms by (simp add: try_add_to_vector_store_def)

lemma try_add_cases:
  assumes "add_contract w"
  shows "(fst (try_add_to_vector_store w doc self) \<noteq> None \<and>
          documents (snd (try_add_to_vector_store w doc self)) = documents self \<and>
          index_size w (vector_store (snd (try_add_to_vector_store w doc self))) =
            index_size w (vector_store self))
       \<or> (fst (try_add_to_vector_store w doc self) = None \<and>
          documents (snd (try_add_to_vector_store w doc self)) = documents self @ [doc] \<and>
          index_size w (vector_store (snd (try_add_to_vector_store w doc self))) =
            Suc (index_size w (vector_store self)))"
proof (cases "encode w (title doc @ '' '' @ take 500 (content doc))")
  case (Inl e)
  then show ?thesis by (simp add: try_add_encode_raises)
next
  case (Inr embedding)
  define ix where "ix = (case vector_store self of
                      None \<Rightarrow> new_index w (length embedding) | Some i \<Rightarrow> i)"
  have size_ix: "ntotal w ix = index_size w (vector_store self)"
    using assms by (simp add: ix_def index_size_def add_contract_def split: option.split)
  show ?thesis
  proof (cases "index_add w ix embedding")
    case (Inl e)
    with Inr size_ix show ?thesis
      by (simp add: try_add_to_vector_store_def Let_def ix_def [symmetric] index_size_def)
  next
    case (Inr ix')
    with assms have "ntotal w ix' = Suc (ntotal w ix)"
      by (simp add: add_contract_def)
    with \<open>encode w _ = Inr embedding\<close> Inr size_ix show ?thesis
      by (simp add: try_add_to_vector_store_def Let_def ix_def [symmetric] index_size_def
          save_vector_store_fields)
  qed
qed

lemma add_to_vector_store_inv:
  assumes "add_contract w" and "cache_inv w self"
  shows "cache_inv w (add_to_vector_store w doc self)"
  using try_add_cases [OF assms(1), of doc self] assms(2)
  unfolding cache_inv_def add_to_vector_store_def by auto

lemma add_items_inv:
  assumes "add_contract w"
  shows "cache_inv w self \<Longrightarrow> cache_inv w (snd (add_items w items results self))"
proof (induction items arbitrary: results self)
  case Nil
  then show ?case by simp
next
  case (Cons item items)
  from Cons.prems have "cache_inv w (add_to_vector_store w (item_result item) self)"
    by (rule add_to_vector_store_inv [OF assms])
  then show ?case by (simp add: Cons.IH)
qed

lemma tool_search_internet_inv:
  assumes "add_contract w" and "cache_inv w self"
  shows "cache_inv w (snd (tool_search_internet w q max_r self))"
  using assms by (simp add: tool_search_internet_def add_items_inv split: sum.split)

lemma flat_add_contract: "add_contract flat_backends"
  by (auto simp: add_contract_def flat_backends_def flat_add_def split: if_splits)

lemma demo_cache_eq:
  "demo_cache = \<lparr>tavily_available = False, vector_store = Some (1, [[2], [5]]),
                 documents = [doc_a, doc_b], pickle_file = None\<rparr>"
  by (simp add: demo_cache_def add_to_vector_store_def try_add_to_vector_store_def
      flat_backends_def fresh_tool_def doc_a_def doc_b_def flat_add_def save_vector_store_def)

text \<open>
  C3. Inserting into the similarity cache keeps the index and the document list parallel.
  Given an index library whose new index is empty and whose successful \<open>add\<close> adds one
  vector, \<open>_add_to_vector_store\<close> preserves \<open>index.size() == len(documents)\<close>. Either the
  \<open>try\<close> block ended with an exception, and then neither a vector nor a document was
  added, or it ended normally, and then exactly one vector and the document were added.
  The embedding is computed first: when it raises, the tool is unchanged. The function
  itself returns the tool in every case, so no exception reaches the caller. The web
  search, which inserts every result it gets, preserves the invariant as well.
\<close>

theorem add_to_vector_store_parallel:
  "add_contract w \<Longrightarrow> cache_inv w self \<Longrightarrow>
   cache_inv w (add_to_vector_store w doc self)
   \<and> (documents (add_to_vector_store w doc self) = documents self \<and>
      index_size w (vector_store (add_to_vector_store w doc self)) =
        index_size w (vector_store self) \<and>
      fst (try_add_to_vector_store w doc self) \<noteq> None
      \<or>
      documents (add_to_vector_store w doc self) = documents self @ [doc] \<and>
      index_size w (vector_store (add_to_vector_store w doc self)) =
        Suc (index_size w (vector_store self)) \<and>
      fst (try_add_to_vector_store w doc self) = None)
   \<and> (encode w (title doc @ '' '' @ take 500 (content doc)) = Inl e \<longrightarrow>
      add_to_vector_store w doc self = self)
   \<and> cache_inv w (snd (tool_search_internet w q max_r self))"
proof -
  assume c: "add_contract w" and i: "cache_inv w self"
  from try_add_cases [OF c, of doc self]
  have cases: "documents (add_to_vector_store w doc self) = documents self \<and>
      index_size w (vector_store (add_to_vector_store w doc self)) =
        index_size w (vector_store self) \<and>
      fst (try_add_to_vector_store w doc self) \<noteq> None
      \<or>
      documents (add_to_vector_store w doc self) = documents self @ [doc] \<and>
      index_size w (vector_store (add_to_vector_store w doc self)) =
        Suc (index_size w (vector_store self)) \<and>
      fst (try_add_to_vector_store w doc self) = None"
    unfolding add_to_vector_store_def by blast
  from cases i have inv: "cache_inv w (add_to_vector_store w doc self)"
    unfolding cache_inv_def by auto
  have enc: "encode w (title doc @ '' '' @ take 500 (content doc)) = Inl e \<longrightarrow>
      add_to_vector_store w doc self = self"
    by (simp add: add_to_vector_store_def try_add_encode_raises)
  from c i have web: "cache_inv w (snd (tool_search_internet w q max_r self))"
    by (rule tool_search_internet_inv)
  from inv cases enc web show ?thesis by blast
qed

theorem add_to_vector_store_parallel_witness:
  "add_contract flat_backends
   \<and> cache_inv flat_backends fresh_tool
   \<and> cache_inv flat_backends (add_to_vector_store flat_backends doc_a fresh_tool)
   \<and> documents (add_to_vector_store flat_backends doc_a fresh_tool) = [doc_a]
   \<and> cache_inv flat_backends demo_cache
   \<and> cache_inv flat_backends (add_to_vector_store flat_backends doc_a demo_cache)
   \<and> add_to_vector_store (flat_backends\<lparr>encode := \<lambda>s. Inl (Exception ''no model'')\<rparr>)
        doc_a demo_cache = demo_cache"
proof -
  let ?bad = "flat_backends\<lparr>encode := \<lambda>s. Inl (Exception ''no model'')\<rparr>"
  have i0: "cache_inv flat_backends fresh_tool"
    by (simp add: cache_inv_def index_size_def fresh_tool_def)
  have i2: "cache_inv flat_backends demo_cache"
    by (simp add: demo_cache_eq cache_inv_def index_size_def flat_backends_def)
  have d1: "documents (add_to_vector_store flat_backends doc_a fresh_tool) = [doc_a]"
    by (simp add: add_to_vector_store_def try_add_to_vector_store_def
      flat_backends_def fresh_tool_def doc_a_def flat_add_def save_vector_store_def)
  have cb: "add_contract ?bad"
    using flat_add_contract by (simp add: add_contract_def flat_backends_def)
  have ib: "cache_inv ?bad demo_cache"
    by (simp add: demo_cache_eq cache_inv_def index_size_def flat_backends_def)
  have eb: "encode ?bad (title doc_a @ '' '' @ take 500 (content doc_a)) =
      Inl (Exception ''no model'')"
    by simp
  from add_to_vector_store_parallel [OF flat_add_contract i0, of doc_a _ "[]" 0]
    add_to_vector_store_parallel [OF flat_add_contract i2, of doc_a _ "[]" 0]
    add_to_vector_store_parallel [OF cb ib, of doc_a "Exception ''no model''" "[]" 0]
    flat_add_contract i0 i2 d1 eb
  show ?thesis by blast
qed

text \<open>The lookup in the cache: the shape of its result.\<close>

lemma py_index_mem: "py_index xs i = Some x \<Longrightarrow> x \<in> set xs"
  by (auto simp: py_index_def split: if_splits)

lemma semantic_hits_shape:
  "semantic_hits docs hits acc = Some rs \<Longrightarrow>
   \<exists>stored. length stored = length (filter (\<lambda>(i, d). i < int (length docs)) hits) \<and>
     set stored \<subseteq> set docs \<and>
     rs = acc @ map2 as_hit stored
            (map snd (filter (\<lambda>(i, d). i < int (length docs)) hits))"
proof (induction hits arbitrary: acc rs)
  case Nil
  then show ?case by simp
next
  case (Cons h hits)
  obtain idx distance where h: "h = (idx, distance)" by (cases h)
  show ?case
  proof (cases "idx < int (length docs)")
    case False
    with Cons.prems h have "semantic_hits docs hits acc = Some rs" by simp
    from Cons.IH [OF this] False h show ?thesis by simp
  next
    case True
    with Cons.prems h obtain d where d: "py_index docs idx = Some d"
      and rest: "semantic_hits docs hits (acc @ [as_hit d distance]) = Some rs"
      by (auto simp: as_hit_def split: option.splits)
    from Cons.IH [OF rest] obtain stored where
      s: "length stored = length (filter (\<lambda>(i, d). i < int (length docs)) hits)"
        "set stored \<subseteq> set docs"
        "rs = (acc @ [as_hit d distance]) @ map2 as_hit stored
            (map snd (filter (\<lambda>(i, d). i < int (length docs)) hits))"
      by blast
    from d have "d \<in> set docs" by (rule py_index_mem)
    with s True h have
      "length (d # stored) = length (filter (\<lambda>(i, d). i < int (length docs)) (h # hits)) \<and>
       set (d # stored) \<subseteq> set docs \<and>
       rs = acc @ map2 as_hit (d # stored)
            (map snd (filter (\<lambda>(i, d). i < int (length docs)) (h # hits)))"
      by simp
    then show ?thesis by blast
  qed
qed

lemma as_hit_confidence:
  "0 \<le> x \<Longrightarrow> 1 / 10 \<le> confidence (as_hit d x) \<and> confidence (as_hit d x) \<le> 1"
  by (simp add: as_hit_def)

lemma as_hit_fields:
  "source (as_hit d x) = Some ''semantic_search''" "dtype (as_hit d x) = dtype d"
  "confidence (as_hit d x) = max (1 / 10) (1 - x / 10)"
  by (simp_all add: as_hit_def)

lemma semantic_search_cases:
  "semantic_search w q k self = [] \<or>
   (\<exists>ix v ds ids rs. vector_store self = Some ix \<and> documents self \<noteq> [] \<and>
      index_search w ix v (min k (int (length (documents self)))) = Inr (ds, ids) \<and>
      semantic_hits (documents self) (zip ids ds) [] = Some rs \<and>
      semantic_search w q k self = rs)"
  by (auto simp: semantic_search_def split: option.splits sum.splits prod.splits)

lemma semantic_search_empty:
  "documents self = [] \<or> vector_store self = None \<Longrightarrow> semantic_search w q k self = []"
  by (auto simp: semantic_search_def split: option.splits)


lemma semantic_search_shape:
  assumes "search_contract w"
  shows "\<exists>stored ds. length stored = length ds \<and> set stored \<subseteq> set (documents self) \<and>
           sorted ds \<and> (\<forall>d \<in> set ds. 0 \<le> d) \<and>
           length ds \<le> nat (min k (int (length (documents self)))) \<and>
           semantic_search w q k self = map2 as_hit stored ds"
proof -
  from semantic_search_cases [of w q k self] show ?thesis
  proof
    assume "semantic_search w q k self = []"
    then have "length ([] :: document list) = length ([] :: real list) \<and>
           set [] \<subseteq> set (documents self) \<and> sorted ([] :: real list) \<and>
           (\<forall>d \<in> set ([] :: real list). 0 \<le> d) \<and>
           length ([] :: real list) \<le> nat (min k (int (length (documents self)))) \<and>
           semantic_search w q k self = map2 as_hit [] []"
      by simp
    then show ?thesis by blast
  next
    assume "\<exists>ix v ds ids rs. vector_store self = Some ix \<and> documents self \<noteq> [] \<and>
      index_search w ix v (min k (int (length (documents self)))) = Inr (ds, ids) \<and>
      semantic_hits (documents self) (zip ids ds) [] = Some rs \<and>
      semantic_search w q k self = rs"
    then obtain ix v ds ids rs where
      srch: "index_search w ix v (min k (int (length (documents self)))) = Inr (ds, ids)"
      and hits: "semantic_hits (documents self) (zip ids ds) [] = Some rs"
      and res: "semantic_search w q k self = rs"
      by blast
    let ?P = "\<lambda>(i, d :: real). i < int (length (documents self))"
    let ?kept = "map snd (filter ?P (zip ids ds))"
    from assms srch have len: "length ids \<le> nat (min k (int (length (documents self))))"
      and srt: "sorted ds" and nonneg: "\<forall>d \<in> set ds. 0 \<le> d"
      unfolding search_contract_def by blast+
    from semantic_hits_shape [OF hits] obtain stored where
      st: "length stored = length (filter ?P (zip ids ds))"
        "set stored \<subseteq> set (documents self)" "rs = map2 as_hit stored ?kept"
      by auto
    have "map snd (zip ids ds) = take (length ids) ds"
      by (simp add: map_snd_zip_take min_def)
    with srt have "sorted (map snd (zip ids ds))" by (simp add: sorted_wrt_take)
    then have k1: "sorted ?kept" by (rule sorted_filter)
    have "set ?kept \<subseteq> set ds" by (auto dest: set_zip_rightD)
    with nonneg have k2: "\<forall>d \<in> set ?kept. 0 \<le> d" by blast
    have "length ?kept = length (filter ?P (zip ids ds))" by simp
    also have "\<dots> \<le> length (zip ids ds)" by (rule length_filter_le)
    also have "\<dots> \<le> length ids" by simp
    finally have k3: "length ?kept \<le> nat (min k (int (length (documents self))))"
      using len by simp
    from st k1 k2 k3 res have
      "length stored = length ?kept \<and> set stored \<subseteq> set (documents self) \<and>
       sorted ?kept \<and> (\<forall>d \<in> set ?kept. 0 \<le> d) \<and>
       length ?kept \<le> nat (min k (int (length (documents self)))) \<and>
       semantic_search w q k self = map2 as_hit stored ?kept"
      by simp
    then show ?thesis by blast
  qed
qed

lemma l2_distance_nonneg: "0 \<le> l2_distance a b"
  unfolding l2_distance_def by (rule sum_list_nonneg) auto

lemma flat_search_contract: "search_contract flat_backends"
  unfolding search_contract_def
proof (intro allI impI)
  fix ix :: "nat \<times> vec list" and v k ds ids
  assume a: "index_search flat_backends ix v k = Inr (ds, ids)"
  let ?z = "zip (map (l2_distance v) (snd ix)) (map int [0..<length (snd ix)])"
  let ?ranked = "take (nat k) (sort_key fst ?z)"
  from a have ds: "ds = map fst ?ranked" and ids: "ids = map snd ?ranked"
    by (simp_all add: flat_backends_def flat_search_def Let_def split: if_splits)
  have "sorted (map fst (sort_key fst ?z))" by (rule sorted_sort_key)
  then have s: "sorted ds" by (simp add: ds take_map [symmetric] sorted_wrt_take)
  have "set ?ranked \<subseteq> set ?z"
    using set_take_subset [of "nat k" "sort_key fst ?z"] by simp
  then have "set ds \<subseteq> fst ` set ?z"
    unfolding ds by auto
  also have "\<dots> \<subseteq> set (map (l2_distance v) (snd ix))"
    by (auto dest: set_zip_leftD)
  finally have n: "\<forall>d \<in> set ds. 0 \<le> d"
    using l2_distance_nonneg by auto
  have "length ids \<le> nat k" by (simp add: ids)
  with s n show "length ids \<le> nat k \<and> sorted ds \<and> (\<forall>d \<in> set ds. 0 \<le> d)" by blast
qed

lemma demo_semantic_search:
  "semantic_search flat_backends ''abc'' 3 demo_cache = [as_hit doc_a 1, as_hit doc_b 4]"
  "semantic_search flat_backends ''abc'' 1 demo_cache = [as_hit doc_a 1]"
  "semantic_search flat_backends ''abc'' 0 demo_cache = []"
  by (simp_all add: demo_cache_eq semantic_search_def flat_backends_def flat_search_def
      l2_distance_def py_index_def as_hit_def)

lemma semantic_hits_valid:
  assumes "\<forall>i \<in> set (map fst hits). 0 \<le> i \<and> i < int (length docs)"
  shows "semantic_hits docs hits acc =
           Some (acc @ map (\<lambda>(i, d). as_hit (docs ! nat i) d) hits)"
  using assms
proof (induction hits arbitrary: acc)
  case Nil
  then show ?case by simp
next
  case (Cons h hits)
  obtain idx distance where h: "h = (idx, distance)" by (cases h)
  from Cons.prems h have v: "0 \<le> idx" "idx < int (length docs)"
    and rest: "\<forall>i \<in> set (map fst hits). 0 \<le> i \<and> i < int (length docs)"
    by auto
  from v have p: "py_index docs idx = Some (docs ! nat idx)"
    by (simp add: py_index_def)
  from Cons.IH [OF rest, of "acc @ [as_hit (docs ! nat idx) distance]"] v p h
  show ?case by (simp add: as_hit_def)
qed

lemma semantic_search_hits:
  assumes "vector_store self = Some ix" and "documents self \<noteq> []"
    and "encode w q = Inr qe"
    and "index_search w ix qe (min k (int (length (documents self)))) = Inr (ds, ids)"
    and "\<forall>i \<in> set ids. 0 \<le> i \<and> i < int (length (documents self))"
  shows "semantic_search w q k self =
           map (\<lambda>(i, d). as_hit (documents self ! nat i) d) (zip ids ds)"
proof -
  have "set (map fst (zip ids ds)) \<subseteq> set ids" by (auto dest: set_zip_leftD)
  with assms(5)
  have "\<forall>i \<in> set (map fst (zip ids ds)). 0 \<le> i \<and> i < int (length (documents self))"
    by blast
  from semantic_hits_valid [OF this, of "[]"] assms(1-4) show ?thesis
    by (simp add: semantic_search_def)
qed

lemma semantic_search_raises:
  "encode w q = Inl e \<Longrightarrow> semantic_search w q k self = []"
  "vector_store self = Some ix \<Longrightarrow> encode w q = Inr qe \<Longrightarrow>
   index_search w ix qe (min k (int (length (documents self)))) = Inl e \<Longrightarrow>
   semantic_search w q k self = []"
  by (simp_all add: semantic_search_def split: option.split)

lemma py_index_stored_at:
  "py_index xs i =
     (if - int (length xs) \<le> i \<and> i < int (length xs) then Some (stored_at xs i) else None)"
  by (auto simp: py_index_def stored_at_def)

lemma semantic_hits_general:
  "semantic_hits docs hits acc =
     (if \<forall>i \<in> set (map fst hits). - int (length docs) \<le> i
      then Some (acc @ map (\<lambda>(i, d). as_hit (stored_at docs i) d)
                          (filter (\<lambda>(i, d). i < int (length docs)) hits))
      else None)"
proof (induction hits arbitrary: acc)
  case Nil
  then show ?case by simp
next
  case (Cons h hits)
  obtain idx distance where h: "h = (idx, distance)" by (cases h)
  show ?case
    unfolding h
    by (simp add: Cons.IH py_index_stored_at as_hit_def)
qed

lemma semantic_search_general:
  assumes "vector_store self = Some ix" and "documents self \<noteq> []"
    and "encode w q = Inr qe"
    and "index_search w ix qe (min k (int (length (documents self)))) = Inr (ds, ids)"
  shows "semantic_search w q k self =
           (if \<forall>i \<in> set (map fst (zip ids ds)). - int (length (documents self)) \<le> i
            then map (\<lambda>(i, d). as_hit (stored_at (documents self) i) d)
                   (filter (\<lambda>(i, d). i < int (length (documents self))) (zip ids ds))
            else [])"
  using assms by (simp add: semantic_search_def semantic_hits_general)

lemma demo_nearest:
  "vector_store demo_cache = Some (1, [[2], [5]])"
  "documents demo_cache = [doc_a, doc_b]"
  "encode flat_backends ''abcde'' = Inr [5]"
  "index_search flat_backends (1, [[2], [5]]) [5] (min 3 (int (length (documents demo_cache)))) =
     Inr ([0, 9], [1, 0])"
  by (simp_all add: demo_cache_eq flat_backends_def flat_search_def l2_distance_def)

text \<open>
  C4, as the code has it. Given an index library whose search returns at most \<open>k\<close> hits,
  nearest first, at distances that are not negative: \<open>semantic_search\<close> on a cache of
  \<open>N\<close> documents returns at most \<open>min(k, N)\<close> documents, in the order of ascending
  distance; each is a copy of a stored document with \<open>confidence = max(0.1, 1 -
  distance/10)\<close>, which lies between 0.1 and 1, and with \<open>source\<close> set to
  \<open>semantic_search\<close>. The copy keeps the stored \<open>type\<close>: the kind is not overridden. With
  no index or no document the result is empty, and so it is when the embedding or the
  search of the index raises. The result is read off the answer of the index: when the
  labels it returns are positions of documents, the result is, hit by hit, the document
  at the label with the confidence of the distance. In general a label at or beyond the
  number of documents is skipped, a negative label counts from the end, and a label
  below minus the number of documents makes the subscript raise and the result empty.
  The function returns a list in every case.
\<close>

theorem semantic_search_nearest:
  "search_contract w \<Longrightarrow>
   length (semantic_search w q k self) \<le> nat (min k (int (length (documents self))))
   \<and> (\<exists>stored ds. length stored = length ds \<and> set stored \<subseteq> set (documents self) \<and>
        sorted ds \<and> semantic_search w q k self = map2 as_hit stored ds)
   \<and> (\<forall>r \<in> set (semantic_search w q k self).
        1 / 10 \<le> confidence r \<and> confidence r \<le> 1 \<and>
        source r = Some ''semantic_search'' \<and>
        (\<exists>d \<in> set (documents self). dtype r = dtype d))
   \<and> (documents self = [] \<or> vector_store self = None \<longrightarrow> semantic_search w q k self = [])
   \<and> (encode w q = Inl e \<longrightarrow> semantic_search w q k self = [])
   \<and> (vector_store self = Some ix \<and> encode w q = Inr qe \<and>
      index_search w ix qe (min k (int (length (documents self)))) = Inl e \<longrightarrow>
        semantic_search w q k self = [])
   \<and> (vector_store self = Some ix \<and> documents self \<noteq> [] \<and> encode w q = Inr qe \<and>
      index_search w ix qe (min k (int (length (documents self)))) = Inr (dists, ids) \<and>
      (\<forall>i \<in> set ids. 0 \<le> i \<and> i < int (length (documents self))) \<longrightarrow>
        semantic_search w q k self =
          map (\<lambda>(i, d). as_hit (documents self ! nat i) d) (zip ids dists) \<and>
        sorted dists \<and> (\<forall>d \<in> set dists. 0 \<le> d))
   \<and> (vector_store self = Some ix \<and> documents self \<noteq> [] \<and> encode w q = Inr qe \<and>
      index_search w ix qe (min k (int (length (documents self)))) = Inr (dists, ids) \<longrightarrow>
        semantic_search w q k self =
          (if \<forall>i \<in> set (map fst (zip ids dists)). - int (length (documents self)) \<le> i
           then map (\<lambda>(i, d). as_hit (stored_at (documents self) i) d)
                  (filter (\<lambda>(i, d). i < int (length (documents self))) (zip ids dists))
           else []))"
proof -
  assume c: "search_contract w"
  from semantic_search_shape [OF c, of self k q] obtain stored ds where
    l: "length stored = length ds" and sub: "set stored \<subseteq> set (documents self)"
    and srt: "sorted ds" and nonneg: "\<forall>d \<in> set ds. 0 \<le> d"
    and bound: "length ds \<le> nat (min k (int (length (documents self))))"
    and res: "semantic_search w q k self = map2 as_hit stored ds"
    by blast
  from l bound res
  have p1: "length (semantic_search w q k self) \<le> nat (min k (int (length (documents self))))"
    by simp
  from l sub srt res
  have p2: "\<exists>stored ds. length stored = length ds \<and> set stored \<subseteq> set (documents self) \<and>
        sorted ds \<and> semantic_search w q k self = map2 as_hit stored ds"
    by blast
  have p3: "\<forall>r \<in> set (semantic_search w q k self).
        1 / 10 \<le> confidence r \<and> confidence r \<le> 1 \<and>
        source r = Some ''semantic_search'' \<and>
        (\<exists>d \<in> set (documents self). dtype r = dtype d)"
  proof
    fix r assume "r \<in> set (semantic_search w q k self)"
    with res obtain d x where dx: "(d, x) \<in> set (zip stored ds)" and r: "r = as_hit d x"
      by auto
    from dx have "d \<in> set stored" and "x \<in> set ds"
      by (auto dest: set_zip_leftD set_zip_rightD)
    with sub nonneg have d: "d \<in> set (documents self)" and x: "0 \<le> x" by auto
    from as_hit_confidence [OF x, of d] d r
    show "1 / 10 \<le> confidence r \<and> confidence r \<le> 1 \<and>
        source r = Some ''semantic_search'' \<and>
        (\<exists>d \<in> set (documents self). dtype r = dtype d)"
      by (auto simp: as_hit_fields)
  qed
  have p4: "documents self = [] \<or> vector_store self = None \<longrightarrow>
      semantic_search w q k self = []"
    using semantic_search_empty [of self w q k] by blast
  have p5: "encode w q = Inl e \<longrightarrow> semantic_search w q k self = []"
    by (simp add: semantic_search_raises(1))
  have p6: "vector_store self = Some ix \<and> encode w q = Inr qe \<and>
      index_search w ix qe (min k (int (length (documents self)))) = Inl e \<longrightarrow>
        semantic_search w q k self = []"
    by (simp add: semantic_search_raises(2))
  have p7: "semantic_search w q k self =
          map (\<lambda>(i, d). as_hit (documents self ! nat i) d) (zip ids dists) \<and>
        sorted dists \<and> (\<forall>d \<in> set dists. 0 \<le> d)"
    if h: "vector_store self = Some ix" "documents self \<noteq> []" "encode w q = Inr qe"
      "index_search w ix qe (min k (int (length (documents self)))) = Inr (dists, ids)"
      "\<forall>i \<in> set ids. 0 \<le> i \<and> i < int (length (documents self))"
  proof -
    from c h(4) have "sorted dists \<and> (\<forall>d \<in> set dists. 0 \<le> d)"
      unfolding search_contract_def by blast
    with semantic_search_hits [OF h] show ?thesis by blast
  qed
  have p8: "vector_store self = Some ix \<and> documents self \<noteq> [] \<and> encode w q = Inr qe \<and>
      index_search w ix qe (min k (int (length (documents self)))) = Inr (dists, ids) \<longrightarrow>
        semantic_search w q k self =
          (if \<forall>i \<in> set (map fst (zip ids dists)). - int (length (documents self)) \<le> i
           then map (\<lambda>(i, d). as_hit (stored_at (documents self) i) d)
                  (filter (\<lambda>(i, d). i < int (length (documents self))) (zip ids dists))
           else [])"
    using semantic_search_general [of self ix w q qe k dists ids] by blast
  from p1 p2 p3 p4 p5 p6 p7 p8 show ?thesis by blast
qed

theorem semantic_search_nearest_witness:
  "search_contract flat_backends
   \<and> length (semantic_search flat_backends ''abc'' 1 demo_cache) \<le>
       nat (min 1 (int (length (documents demo_cache))))
   \<and> semantic_search flat_backends ''abcde'' 3 demo_cache = [as_hit doc_b 0, as_hit doc_a 9]
   \<and> map confidence (semantic_search flat_backends ''abcde'' 3 demo_cache) = [1, 1 / 10]
   \<and> semantic_search flat_backends ''abc'' 3 demo_cache = [as_hit doc_a 1, as_hit doc_b 4]
   \<and> map confidence (semantic_search flat_backends ''abc'' 3 demo_cache) = [9 / 10, 6 / 10]
   \<and> map source (semantic_search flat_backends ''abc'' 3 demo_cache) =
       [Some ''semantic_search'', Some ''semantic_search'']
   \<and> semantic_search flat_backends ''abc'' 3 fresh_tool = []"
proof -
  from semantic_search_nearest [OF flat_search_contract, of "''abc''" 1 demo_cache]
  have a: "length (semantic_search flat_backends ''abc'' 1 demo_cache) \<le>
       nat (min 1 (int (length (documents demo_cache))))"
    by blast
  have f: "documents fresh_tool = []" by (simp add: fresh_tool_def)
  with semantic_search_nearest [OF flat_search_contract, of "''abc''" 3 fresh_tool]
  have b: "semantic_search flat_backends ''abc'' 3 fresh_tool = []"
    by blast
  have c: "map confidence [as_hit doc_a 1, as_hit doc_b 4] = [9 / 10, 6 / 10]"
    "map source [as_hit doc_a 1, as_hit doc_b 4] =
       [Some ''semantic_search'', Some ''semantic_search'']"
    "map confidence [as_hit doc_b 0, as_hit doc_a 9] = [1, 1 / 10]"
    by (simp_all add: as_hit_def)
  have ne: "documents demo_cache \<noteq> []" by (simp add: demo_nearest(2))
  have valid: "\<forall>i \<in> set [1, 0 :: int]. 0 \<le> i \<and> i < int (length (documents demo_cache))"
    by (simp add: demo_nearest(2))
  from demo_nearest(1) ne demo_nearest(3,4) valid
    semantic_search_nearest [OF flat_search_contract, where q = "''abcde''" and k = 3
      and self = demo_cache and ix = "(1, [[2], [5]])" and qe = "[5]"
      and dists = "[0, 9]" and ids = "[1, 0]" and e = "Exception ''none''"]
  have "semantic_search flat_backends ''abcde'' 3 demo_cache =
          map (\<lambda>(i, d). as_hit (documents demo_cache ! nat i) d) (zip [1, 0] [0, 9])"
    by blast
  then have d: "semantic_search flat_backends ''abcde'' 3 demo_cache =
      [as_hit doc_b 0, as_hit doc_a 9]"
    by (simp add: demo_nearest(2))
  from a b c d flat_search_contract show ?thesis
    by (simp add: demo_semantic_search(1))
qed

text \<open>
  The claim as stated fails on the kind: two cached documents of type \<open>internet\<close> come
  back from the lookup with type \<open>internet\<close>, not \<open>semantic\<close>.
\<close>

theorem semantic_search_kind_counterexample:
  "map dtype (semantic_search flat_backends ''abc'' 3 demo_cache) = [''internet'', ''internet'']
   \<and> \<not> list_all (\<lambda>r. dtype r = ''semantic'') (semantic_search flat_backends ''abc'' 3 demo_cache)"
  by (simp add: demo_semantic_search(1) as_hit_def doc_a_def doc_b_def)

text \<open>The agent without retrievers.\<close>

lemma search_node_no_retrievers:
  assumes "use_graph (g_options g) = Some False" and "use_internet (g_options g) = Some False"
  shows "search_node graph_tool web_tool g =
           (g\<lparr>all_results := Some [], total_sources := Some 0\<rparr>, [])"
  using assms by (simp add: search_node_def opt_get_def)

lemma generate_node_empty:
  assumes "opt_get (all_results g) [] = []"
  shows "generate_node format_sources llm g =
           Inr (g\<lparr>answer := Some insufficient_answer, g_sources := Some [],
                   g_structured_output := Some
                     \<lparr>key_points = [''No information found''],
                      summary = ''Unable to generate answer due to insufficient information''\<rparr>\<rparr>)"
  using assms by (simp add: generate_node_def)

text \<open>
  C5. With \<open>use_graph\<close> and \<open>use_internet\<close> both false, \<open>_search_node\<close> calls no
  retriever and leaves an empty \<open>all_results\<close>; \<open>_generate_node\<close> then returns the fixed
  answer with an empty source list, whatever the formatter and the language model are,
  and so does \<open>process_query\<close>. In nodes.py the two search steps are skipped and add no
  context.
\<close>

theorem no_retrievers_insufficient_answer:
  "use_graph opts = Some False \<Longrightarrow> use_internet opts = Some False \<Longrightarrow>
   (g_options g = opts \<longrightarrow>
      search_node graph_tool web_tool g =
        (g\<lparr>all_results := Some [], total_sources := Some 0\<rparr>, []) \<and>
      generate_node format_sources llm (fst (search_node graph_tool web_tool g)) =
        Inr (g\<lparr>all_results := Some [], total_sources := Some 0,
                answer := Some insufficient_answer, g_sources := Some [],
                g_structured_output := Some
                  \<lparr>key_points = [''No information found''],
                   summary = ''Unable to generate answer due to insufficient information''\<rparr>\<rparr>))
   \<and> process_query graph_tool web_tool format_sources llm q (Some opts) ctx =
       (Success insufficient_answer []
          \<lparr>key_points = [''No information found''],
           summary = ''Unable to generate answer due to insufficient information''\<rparr>
          (if opt_get ctx [] \<noteq> [] then ctx else None), [])
   \<and> (options s = opts \<longrightarrow>
        all_contexts (search_internet web_tool cache_tool (search_graph graph_tool s)) =
          all_contexts s)"
proof -
  assume ug: "use_graph opts = Some False" and ui: "use_internet opts = Some False"
  have nodes: "search_node graph_tool web_tool g =
        (g\<lparr>all_results := Some [], total_sources := Some 0\<rparr>, []) \<and>
      generate_node format_sources llm (fst (search_node graph_tool web_tool g)) =
        Inr (g\<lparr>all_results := Some [], total_sources := Some 0,
                answer := Some insufficient_answer, g_sources := Some [],
                g_structured_output := Some
                  \<lparr>key_points = [''No information found''],
                   summary = ''Unable to generate answer due to insufficient information''\<rparr>\<rparr>)"
    if "g_options g = opts"
    using that ug ui
    by (simp add: search_node_no_retrievers generate_node_empty opt_get_def)
  have pq: "process_query graph_tool web_tool format_sources llm q (Some opts) ctx =
       (Success insufficient_answer []
          \<lparr>key_points = [''No information found''],
           summary = ''Unable to generate answer due to insufficient information''\<rparr>
          (if opt_get ctx [] \<noteq> [] then ctx else None), [])"
    using ug ui
    by (simp add: process_query_def search_node_no_retrievers generate_node_empty opt_get_def)
  have skip: "all_contexts (search_internet web_tool cache_tool (search_graph graph_tool s)) =
          all_contexts s" if "options s = opts"
    using that ug ui by (simp add: search_graph_def search_internet_def opt_get_def)
  from nodes pq skip show ?thesis by blast
qed

theorem no_retrievers_insufficient_answer_witness:
  "use_graph no_retrievers = Some False \<and> use_internet no_retrievers = Some False
   \<and> process_query mock_graph_tool mock_web_tool title_sources None
        ''What is AI?'' (Some no_retrievers) None =
       (Success insufficient_answer []
          \<lparr>key_points = [''No information found''],
           summary = ''Unable to generate answer due to insufficient information''\<rparr>
          None, [])"
proof -
  have h: "use_graph no_retrievers = Some False" "use_internet no_retrievers = Some False"
    by (simp_all add: no_retrievers_def)
  from no_retrievers_insufficient_answer [OF h, where g = demo_graph_state
      and graph_tool = mock_graph_tool and web_tool = mock_web_tool
      and format_sources = title_sources and llm = None
      and q = "''What is AI?''" and ctx = None and s = demo_state
      and cache_tool = empty_cache_tool]
  have "process_query mock_graph_tool mock_web_tool title_sources None
        ''What is AI?'' (Some no_retrievers) None =
       (Success insufficient_answer []
          \<lparr>key_points = [''No information found''],
           summary = ''Unable to generate answer due to insufficient information''\<rparr>
          (if opt_get None [] \<noteq> ([] :: py_dict) then None else None), [])"
    by blast
  with h show ?thesis by simp
qed


text \<open>Stripping a query.\<close>

lemma py_strip_blank:
  assumes "\<forall>c \<in> set q. is_space c"
  shows "py_strip q = []"
proof -
  from assms have e: "dropWhile is_space q = []" by (induction q) auto
  show ?thesis unfolding py_strip_def e by simp
qed

lemma py_strip_not_blank:
  assumes "\<not> (\<forall>c \<in> set q. is_space c)"
  shows "py_strip q \<noteq> []"
proof -
  from assms have "dropWhile is_space q \<noteq> []" by simp
  then have "\<not> is_space (hd (dropWhile is_space q))" by (rule hd_dropWhile)
  moreover from \<open>dropWhile is_space q \<noteq> []\<close>
  have "hd (dropWhile is_space q) \<in> set (rev (dropWhile is_space q))"
    by simp
  ultimately have "dropWhile is_space (rev (dropWhile is_space q)) \<noteq> []"
    by (auto simp del: set_rev)
  then show ?thesis by (simp add: py_strip_def)
qed

text \<open>
  C9. A request whose query is empty or consists of whitespace only (every character one
  that \<open>str.strip()\<close> removes, the no-break space included) is answered with the HTTP
  exception 400 carrying the code \<open>INVALID_REQUEST\<close>, and no retriever is called: the
  list of calls is empty, whatever the retrievers are. Any other query is stripped and
  passed on to \<open>process_query\<close>.
\<close>

theorem blank_query_invalid_request:
  "((\<forall>c \<in> set (req_query request). is_space c) \<longrightarrow>
     agent_query_endpoint graph_tool web_tool format_sources llm request =
       (Inl (HTTPException 400 ''INVALID_REQUEST'' ''Query cannot be empty''), []))
   \<and> (\<not> (\<forall>c \<in> set (req_query request). is_space c) \<longrightarrow>
        fst (agent_query_endpoint graph_tool web_tool format_sources llm request) =
          Inr (fst (process_query graph_tool web_tool format_sources llm
                      (py_strip (req_query request)) (req_options request)
                      (req_context request))))"
proof -
  have blank: "(\<forall>c \<in> set (req_query request). is_space c) \<longrightarrow>
     agent_query_endpoint graph_tool web_tool format_sources llm request =
       (Inl (HTTPException 400 ''INVALID_REQUEST'' ''Query cannot be empty''), [])"
    by (simp add: agent_query_endpoint_def py_strip_blank)
  have other: "fst (agent_query_endpoint graph_tool web_tool format_sources llm request) =
          Inr (fst (process_query graph_tool web_tool format_sources llm
                      (py_strip (req_query request)) (req_options request)
                      (req_context request)))"
    if "\<not> (\<forall>c \<in> set (req_query request). is_space c)"
  proof -
    from that have n: "py_strip (req_query request) \<noteq> []" by (rule py_strip_not_blank)
    then have "req_query request \<noteq> []" by (auto simp: py_strip_def)
    with n show ?thesis by (simp add: agent_query_endpoint_def split: prod.split)
  qed
  from blank other show ?thesis by blast
qed

theorem blank_query_invalid_request_witness:
  "agent_query_endpoint mock_graph_tool mock_web_tool title_sources None
     (QueryRequest [] Omitted Omitted) =
       (Inl (HTTPException 400 ''INVALID_REQUEST'' ''Query cannot be empty''), [])
   \<and> agent_query_endpoint mock_graph_tool mock_web_tool title_sources None
     (QueryRequest [CHR '' '', CHR 0x09, CHR 0x0A, CHR 0x85, CHR 0xA0] Omitted Omitted) =
       (Inl (HTTPException 400 ''INVALID_REQUEST'' ''Query cannot be empty''), [])
   \<and> fst (agent_query_endpoint mock_graph_tool mock_web_tool title_sources None
            (QueryRequest '' x '' Omitted Omitted)) =
       Inr (fst (process_query mock_graph_tool mock_web_tool title_sources None
                   (py_strip (req_query (QueryRequest '' x '' Omitted Omitted)))
                   (req_options (QueryRequest '' x '' Omitted Omitted))
                   (req_context (QueryRequest '' x '' Omitted Omitted))))"
proof -
  have a: "\<forall>c \<in> set (req_query (QueryRequest [] Omitted Omitted)). is_space c"
    by (simp add: QueryRequest_def)
  have b: "\<forall>c \<in> set (req_query (QueryRequest [CHR '' '', CHR 0x09, CHR 0x0A, CHR 0x85, CHR 0xA0] Omitted Omitted)).
             is_space c"
    by (simp add: QueryRequest_def is_space_def)
  have c: "\<not> (\<forall>c \<in> set (req_query (QueryRequest '' x '' Omitted Omitted)). is_space c)"
    by (simp add: QueryRequest_def is_space_def)
  from a b c
    blank_query_invalid_request [of "QueryRequest [] Omitted Omitted"
      mock_graph_tool mock_web_tool title_sources None]
    blank_query_invalid_request [of "QueryRequest [CHR '' '', CHR 0x09, CHR 0x0A, CHR 0x85, CHR 0xA0] Omitted Omitted"
      mock_graph_tool mock_web_tool title_sources None]
    blank_query_invalid_request [of "QueryRequest '' x '' Omitted Omitted"
      mock_graph_tool mock_web_tool title_sources None]
  show ?thesis by blast
qed

text \<open>The calls that a request leads to.\<close>

lemma strip_demo_query: "py_strip ''What is AI?'' = ''What is AI?''"
  by (simp add: py_strip_def is_space_def)

lemma search_node_calls:
  "snd (search_node graph_tool web_tool g) =
     (if opt_get (use_graph (g_options g)) True
      then [GraphSearch (g_query g) (opt_get (max_results (g_options g)) 3)] else []) @
     (if opt_get (use_internet (g_options g)) True
      then [InternetSearch (g_query g) (opt_get (max_results (g_options g)) 3)] else [])"
  by (simp add: search_node_def Let_def)

lemma process_query_calls:
  "snd (process_query graph_tool web_tool format_sources llm q opts ctx) =
     (if opt_get (use_graph (opt_get opts empty_options)) True
      then [GraphSearch q (opt_get (max_results (opt_get opts empty_options)) 3)] else []) @
     (if opt_get (use_internet (opt_get opts empty_options)) True
      then [InternetSearch q (opt_get (max_results (opt_get opts empty_options)) 3)] else [])"
proof -
  let ?i = "\<lparr>g_query = q, g_options = opt_get opts empty_options,
             g_context = opt_get ctx [], all_results = None, total_sources = None,
             answer = None, g_sources = None, g_structured_output = None\<rparr> :: 'a graph_state"
  have "snd (process_query graph_tool web_tool format_sources llm q opts ctx) =
          snd (search_node graph_tool web_tool ?i)"
    by (simp add: process_query_def Let_def split: prod.split)
  then show ?thesis by (simp add: search_node_calls)
qed

lemma endpoint_calls:
  assumes "py_strip (req_query request) \<noteq> []"
  shows "snd (agent_query_endpoint graph_tool web_tool format_sources llm request) =
           snd (process_query graph_tool web_tool format_sources llm
                  (py_strip (req_query request)) (req_options request) (req_context request))"
proof -
  from assms have "req_query request \<noteq> []" by (auto simp: py_strip_def)
  with assms show ?thesis
    by (simp add: agent_query_endpoint_def split: prod.split)
qed

text \<open>
  C7. The result limit the retrievers are called with, for the query \<open>What is AI?\<close>.
  When the request gives an \<open>options\<close> object without \<open>max_results\<close>, or gives
  \<open>null\<close>, \<open>_search_node\<close> passes the limit 3 to both retrievers. Only when the request
  leaves \<open>options\<close> out altogether does the default of \<open>QueryRequest\<close> make it 5.
\<close>

theorem search_node_limit_three:
  "snd (agent_query_endpoint graph_tool web_tool format_sources llm
          (QueryRequest ''What is AI?'' Omitted (Given (Some empty_options)))) =
     [GraphSearch ''What is AI?'' 3, InternetSearch ''What is AI?'' 3]
   \<and> snd (agent_query_endpoint graph_tool web_tool format_sources llm
          (QueryRequest ''What is AI?'' Omitted (Given None))) =
     [GraphSearch ''What is AI?'' 3, InternetSearch ''What is AI?'' 3]
   \<and> snd (agent_query_endpoint graph_tool web_tool format_sources llm
          (QueryRequest ''What is AI?'' Omitted Omitted)) =
     [GraphSearch ''What is AI?'' 5, InternetSearch ''What is AI?'' 5]"
  by (simp add: endpoint_calls process_query_calls QueryRequest_def strip_demo_query
      empty_options_def opt_get_def)

text \<open>The loops of the fallback selection as filters.\<close>

lemma collect_items_filter:
  "collect_items p items acc = acc @ map snd (filter (\<lambda>(key, v). p key) items)"
  by (induction p items acc rule: collect_items.induct) auto

lemma what_is_ai_exact:
  "collect_items (\<lambda>key. str_in key (py_lower ''What is AI?'')) fallback_knowledge_base [] =
     [kb_ai]"
  by code_simp

lemma what_is_ai_fallback: "get_fallback_graph_data ''What is AI?'' max_r = py_take max_r [kb_ai]"
  by (simp add: get_fallback_graph_data_def Let_def what_is_ai_exact)

lemma fallback_examples:
  "get_fallback_graph_data ''Tell me about deep nets'' 5 = [kb_dl]"
  "get_fallback_graph_data ''Artificial minds'' 5 = [kb_ai, kb_ml, kb_dl]"
  "get_fallback_graph_data ''Quantum physics'' 2 = [kb_ai, kb_ml]"
  by code_simp+

text \<open>
  C6. The selection of \<open>_get_fallback_graph_data\<close> is a function of the query and the
  limit, with this precedence: the entries whose key is contained in the lower-cased
  query; if there is none, the entries one of whose key words is contained in it; if
  there is none, the bundle of the entries \<open>ai\<close>, \<open>machine learning\<close> and \<open>deep
  learning\<close> when the query contains one of the five AI terms; otherwise the whole table.
  The selection is cut to \<open>max_results\<close>. For the query \<open>What is AI?\<close> and a limit of at
  least 1 the result is the entry \<open>ai\<close>, also through \<open>search_knowledge_graph\<close> without a
  backend connection.
\<close>

theorem fallback_precedence:
  "get_fallback_graph_data q max_r =
     py_take max_r
       (let query_lower = py_lower q;
            exact = map snd (filter (\<lambda>(key, v). str_in key query_lower)
                               fallback_knowledge_base);
            overlap = map snd (filter (\<lambda>(key, v). any_in (py_split key) query_lower)
                                 fallback_knowledge_base)
        in if exact \<noteq> [] then exact
           else if overlap \<noteq> [] then overlap
           else if any_in [''ai'', ''artificial'', ''intelligence'', ''machine'', ''learning'']
                     query_lower
           then [kb_ai, kb_ml, kb_dl]
           else map snd fallback_knowledge_base)
   \<and> (1 \<le> max_r \<longrightarrow> get_fallback_graph_data ''What is AI?'' max_r = [kb_ai])
   \<and> (1 \<le> max_r \<longrightarrow>
        search_knowledge_graph False execute_query ''What is AI?'' max_r = [kb_ai])"
proof -
  have prec: "get_fallback_graph_data q max_r =
     py_take max_r
       (let query_lower = py_lower q;
            exact = map snd (filter (\<lambda>(key, v). str_in key query_lower)
                               fallback_knowledge_base);
            overlap = map snd (filter (\<lambda>(key, v). any_in (py_split key) query_lower)
                                 fallback_knowledge_base)
        in if exact \<noteq> [] then exact
           else if overlap \<noteq> [] then overlap
           else if any_in [''ai'', ''artificial'', ''intelligence'', ''machine'', ''learning'']
                     query_lower
           then [kb_ai, kb_ml, kb_dl]
           else map snd fallback_knowledge_base)"
    unfolding get_fallback_graph_data_def Let_def collect_items_filter
    by simp
  have ai: "get_fallback_graph_data ''What is AI?'' max_r = [kb_ai]" if "1 \<le> max_r"
    using that by (simp add: what_is_ai_fallback py_take_def)
  then have skg: "search_knowledge_graph False execute_query ''What is AI?'' max_r = [kb_ai]"
    if "1 \<le> max_r"
    using that by (simp add: search_knowledge_graph_def)
  from prec ai skg show ?thesis by blast
qed

theorem fallback_precedence_witness:
  "(1 :: int) \<le> 5
   \<and> get_fallback_graph_data ''What is AI?'' 5 = [kb_ai]
   \<and> search_knowledge_graph False (\<lambda>q k. Inr []) ''What is AI?'' 5 = [kb_ai]
   \<and> get_fallback_graph_data ''Tell me about deep nets'' 5 = [kb_dl]
   \<and> get_fallback_graph_data ''Artificial minds'' 5 = [kb_ai, kb_ml, kb_dl]
   \<and> get_fallback_graph_data ''Quantum physics'' 2 = [kb_ai, kb_ml]"
proof -
  have h: "(1 :: int) \<le> 5" by simp
  from h fallback_precedence [of "''What is AI?''" 5 "\<lambda>q k. Inr []"] fallback_examples
  show ?thesis by blast
qed

text \<open>The schedule of the router.\<close>

lemma needs_internet_keywords:
  "needs_internet_search ql = any_in (spec_recency_keywords @ [''2024'', ''2025'']) ql"
  by (auto simp: needs_internet_search_def spec_recency_keywords_def)

lemma internet_scheduled:
  "(''search_internet'' \<in> set (route_steps opts q)) =
     (opt_get (use_internet opts) True \<and> needs_internet_search (py_lower q))"
  by (simp add: route_steps_def Let_def)

lemma graph_scheduled:
  "(''search_graph'' \<in> set (route_steps opts q)) =
     (opt_get (use_graph opts) True \<and> needs_graph_search (py_lower q))"
  by (simp add: route_steps_def Let_def)

text \<open>
  C8, as the code has it. The router puts \<open>search_internet\<close> on its schedule exactly when
  \<open>use_internet\<close> holds (true when absent) and the lower-cased query contains one of the
  ten recency keywords or one of the fixed strings \<open>2024\<close> and \<open>2025\<close>. The check does
  not depend on \<open>use_graph\<close>, nor the graph check on \<open>use_internet\<close>.
\<close>

theorem route_internet_schedule:
  "(''search_internet'' \<in> set (route_steps opts q)) =
     (opt_get (use_internet opts) True \<and>
      any_in (spec_recency_keywords @ [''2024'', ''2025'']) (py_lower q))
   \<and> (''search_internet'' \<in> set (route_steps (opts\<lparr>use_graph := g\<rparr>) q)) =
       (''search_internet'' \<in> set (route_steps opts q))
   \<and> (''search_graph'' \<in> set (route_steps (opts\<lparr>use_internet := i\<rparr>) q)) =
       (''search_graph'' \<in> set (route_steps opts q))"
  by (simp add: internet_scheduled graph_scheduled needs_internet_keywords)

theorem route_internet_schedule_witness:
  "route_steps empty_options ''hello there'' = [''analyze_query'', ''generate_answer'']
   \<and> route_steps empty_options ''What is AI?'' =
       [''analyze_query'', ''search_graph'', ''generate_answer'']
   \<and> route_steps empty_options ''AI news'' =
       [''analyze_query'', ''search_internet'', ''generate_answer'']
   \<and> route_steps empty_options ''Explain the latest AI'' =
       [''analyze_query'', ''search_graph'', ''search_internet'', ''generate_answer'']
   \<and> route_steps (empty_options\<lparr>use_internet := Some False\<rparr>) ''AI news'' =
       [''analyze_query'', ''generate_answer'']
   \<and> (''search_internet'' \<in> set (route_steps empty_options ''AI in 2025'')) =
       (opt_get (use_internet empty_options) True \<and>
        any_in (spec_recency_keywords @ [''2024'', ''2025'']) (py_lower ''AI in 2025''))"
proof -
  have a: "route_steps empty_options ''hello there'' = [''analyze_query'', ''generate_answer'']"
    "route_steps empty_options ''What is AI?'' =
       [''analyze_query'', ''search_graph'', ''generate_answer'']"
    "route_steps empty_options ''AI news'' =
       [''analyze_query'', ''search_internet'', ''generate_answer'']"
    "route_steps empty_options ''Explain the latest AI'' =
       [''analyze_query'', ''search_graph'', ''search_internet'', ''generate_answer'']"
    "route_steps (empty_options\<lparr>use_internet := Some False\<rparr>) ''AI news'' =
       [''analyze_query'', ''generate_answer'']"
    by code_simp+
  from a route_internet_schedule [of empty_options "''AI in 2025''" None None]
  show ?thesis by blast
qed

text \<open>
  The claim as stated fails on the year: in 2026 the query \<open>deals 2026\<close> names the current
  year, and the router does not schedule the internet search for it.
\<close>

theorem route_year_counterexample:
  "(''search_internet'' \<in> set (route_steps empty_options ''deals 2026'')) \<noteq>
     (opt_get (use_internet empty_options) True \<and>
      spec_needs_internet 2026 (py_lower ''deals 2026''))"
  by code_simp

end
